theory Spec2Isabelle
  imports Complex_Main
begin

section \<open>Travel matrix construction and gap filling\<close>

text \<open>
  A shallow embedding of \<^verbatim>\<open>old_progress/src/data/travel_matrix/travel_matrix_builder.py\<close>,
  \<^verbatim>\<open>interpolation_methods.py\<close> and the \<^verbatim>\<open>haversine\<close> helper of
  \<^verbatim>\<open>old_progress/generate_statewide_travel_matrix.py\<close>.

  Conventions of the embedding.
  \<^item> Python floats are modelled as \<^typ>\<open>real\<close>: rounding is not modelled, and the float
    value NaN is a separate constructor of the cell type below.
  \<^item> A Python exception is the \<open>Inl\<close> branch of a sum type.
  \<^item> A method name that starts with an underscore loses it
    (\<^verbatim>\<open>_calculate_distance\<close> is \<open>calculate_distance\<close>).
  \<^item> A value drawn from \<^verbatim>\<open>np.random.normal\<close> is an argument of the function that
    draws it, so that every theorem holds for every draw.
  \<^item> Strings are ASCII character lists.
\<close>

datatype error =
    FileNotFoundError string
  | ValueError string
  | KeyError string
  | IndexError
  | TypeError
  | AttributeError
  | ZeroDivisionError

definition try_bind :: "error + 'a \<Rightarrow> ('a \<Rightarrow> error + 'b) \<Rightarrow> error + 'b" where
  \<comment> \<open>sequencing: an exception of the first step ends the computation\<close>
  "try_bind m f = (case m of Inl e \<Rightarrow> Inl e | Inr x \<Rightarrow> f x)"

subsection \<open>Python string helpers\<close>

definition startswith :: "string \<Rightarrow> string \<Rightarrow> bool" where
  "startswith s p = (take (length p) s = p)"

definition startswith_any :: "string \<Rightarrow> string list \<Rightarrow> bool" where
  \<comment> \<open>\<^verbatim>\<open>s.startswith((p1, p2, ...))\<close>\<close>
  "startswith_any s ps = list_ex (startswith s) ps"

definition zfill :: "nat \<Rightarrow> string \<Rightarrow> string" where
  \<comment> \<open>\<^verbatim>\<open>str.zfill\<close>: the zeros go after a leading sign.\<close>
  "zfill n s =
     (if n \<le> length s then s
      else (case s of
              c # cs \<Rightarrow>
                if c = CHR ''+'' \<or> c = CHR ''-''
                then c # replicate (n - length s) (CHR ''0'') @ cs
                else replicate (n - length s) (CHR ''0'') @ s
            | [] \<Rightarrow> replicate n (CHR ''0'')))"

definition is_space :: "char \<Rightarrow> bool" where
  "is_space c = (c \<in> set [CHR 0x09, CHR 0x0A, CHR 0x0B, CHR 0x0C, CHR 0x0D,
                            CHR 0x1C, CHR 0x1D, CHR 0x1E, CHR 0x1F, CHR 0x20])"

definition strip :: "string \<Rightarrow> string" where
  "strip s = rev (dropWhile is_space (rev (dropWhile is_space s)))"

definition digit_val :: "char \<Rightarrow> nat option" where
  \<comment> \<open>the value of an ASCII decimal digit\<close>
  "digit_val c = map_of (zip ''0123456789'' [0, 1, 2, 3, 4, 5, 6, 7, 8, 9]) c"

fun parse_digits :: "nat \<Rightarrow> string \<Rightarrow> nat option" where
  \<comment> \<open>decimal digits, single underscores allowed between two digits\<close>
  "parse_digits acc [] = Some acc"
| "parse_digits acc [c] =
     (case digit_val c of Some v \<Rightarrow> Some (acc * 10 + v) | None \<Rightarrow> None)"
| "parse_digits acc (c # d # cs) =
     (case digit_val c of
        Some v \<Rightarrow> parse_digits (acc * 10 + v) (d # cs)
      | None \<Rightarrow>
          if c = CHR ''_'' \<and> digit_val d \<noteq> None then parse_digits acc (d # cs)
          else None)"

definition py_int :: "string \<Rightarrow> int option" where
  \<comment> \<open>\<^verbatim>\<open>int(s)\<close> for a string; \<open>None\<close> is the ValueError.\<close>
  "py_int s =
     (let t = strip s;
          neg = (case t of c # _ \<Rightarrow> c = CHR ''-'' | [] \<Rightarrow> False);
          body = (case t of
                    c # cs \<Rightarrow> if c = CHR ''-'' \<or> c = CHR ''+'' then cs else t
                  | [] \<Rightarrow> [])
      in case body of
           [] \<Rightarrow> None
         | c # _ \<Rightarrow>
             if digit_val c = None then None
             else map_option (\<lambda>n. if neg then - int n else int n) (parse_digits 0 body))"

subsection \<open>DistanceEstimator\<close>

definition radians :: "real \<Rightarrow> real" where
  "radians d = d * pi / 180"

definition calculate_distance :: "real \<times> real \<Rightarrow> real \<times> real \<Rightarrow> real" where
  \<comment> \<open>\<^verbatim>\<open>TravelMatrixBuilder._calculate_distance\<close>\<close>
  "calculate_distance coords1 coords2 =
     (let (lat1, lon1) = coords1;
          (lat2, lon2) = coords2;
          lat1 = radians lat1; lon1 = radians lon1;
          lat2 = radians lat2; lon2 = radians lon2;
          dlat = lat2 - lat1;
          dlon = lon2 - lon1;
          a = (sin (dlat / 2))\<^sup>2 + cos lat1 * cos lat2 * (sin (dlon / 2))\<^sup>2;
          c = 2 * arcsin (sqrt a);
          r = 3959
      in c * r)"

definition atan2 :: "real \<Rightarrow> real \<Rightarrow> real" where
  \<comment> \<open>\<^verbatim>\<open>math.atan2(y, x)\<close>\<close>
  "atan2 y x =
     (if 0 < x then arctan (y / x)
      else if x < 0 \<and> 0 \<le> y then arctan (y / x) + pi
      else if x < 0 then arctan (y / x) - pi
      else if 0 < y then pi / 2
      else if y < 0 then - (pi / 2)
      else 0)"

definition math_sqrt :: "real \<Rightarrow> error + real" where
  \<comment> \<open>\<^verbatim>\<open>math.sqrt\<close> raises ValueError below zero.\<close>
  "math_sqrt x = (if x < 0 then Inl (ValueError ''math domain error'') else Inr (sqrt x))"

definition haversine :: "real \<Rightarrow> real \<Rightarrow> real \<Rightarrow> real \<Rightarrow> error + real" where
  \<comment> \<open>\<^verbatim>\<open>haversine\<close> of generate_statewide_travel_matrix.py\<close>
  "haversine lat1 lon1 lat2 lon2 =
     (let R = 3958.8;
          dlat = radians (lat2 - lat1);
          dlon = radians (lon2 - lon1);
          a = (sin (dlat / 2))\<^sup>2
              + cos (radians lat1) * cos (radians lat2) * (sin (dlon / 2))\<^sup>2
      in case math_sqrt a of
           Inl e \<Rightarrow> Inl e
         | Inr sa \<Rightarrow>
             (case math_sqrt (1 - a) of
                Inl e \<Rightarrow> Inl e
              | Inr sb \<Rightarrow> Inr (R * (2 * atan2 sa sb) * 1.15)))"

subsection \<open>SpeedTierModel\<close>

definition tier_minutes :: "real \<Rightarrow> real" where
  \<comment> \<open>the distance bands of \<^verbatim>\<open>_estimate_travel_time\<close>\<close>
  "tier_minutes distance =
     (if distance \<le> 50 then distance * 1.71
      else if distance \<le> 150 then distance * 1.09
      else if distance \<le> 300 then distance * 0.92
      else distance * 1.0 * 1.1)"

definition estimate_minutes :: "real \<Rightarrow> real \<Rightarrow> real" where
  \<comment> \<open>band formula, the normal draw \<open>noise\<close>, then \<^verbatim>\<open>max(5, .)\<close> and \<^verbatim>\<open>min(600, .)\<close>\<close>
  "estimate_minutes distance noise =
     (let travel_time = tier_minutes distance;
          travel_time = travel_time + noise;
          travel_time = max 5 travel_time;
          travel_time = min 600 travel_time
      in travel_time)"

definition ca_prefixes :: "string list" where
  "ca_prefixes = [''90'', ''91'', ''92'', ''93'', ''94'', ''95'', ''96'']"

definition fallback_travel_time_estimation :: "string \<Rightarrow> string \<Rightarrow> real \<Rightarrow> real" where
  \<comment> \<open>\<^verbatim>\<open>_fallback_travel_time_estimation\<close>; \<open>noise\<close> is the draw from N(0, 10).\<close>
  "fallback_travel_time_estimation origin_zip dest_zip noise =
     (let origin_is_ca = startswith_any origin_zip ca_prefixes;
          dest_is_ca = startswith_any dest_zip ca_prefixes
      in if \<not> origin_is_ca \<and> \<not> dest_is_ca then 180
         else if origin_is_ca \<noteq> dest_is_ca then 120
         else (case (py_int (take 2 origin_zip), py_int (take 2 dest_zip)) of
                 (Some origin_region, Some dest_region) \<Rightarrow>
                   if 90 \<le> origin_region \<and> origin_region \<le> 96
                      \<and> 90 \<le> dest_region \<and> dest_region \<le> 96
                   then (let distance = real_of_int (\<bar>origin_region - dest_region\<bar> * 10);
                             travel_time = distance * 1.5;
                             travel_time = travel_time + noise;
                             travel_time = max 10 travel_time;
                             travel_time = min 120 travel_time
                         in travel_time)
                   else 150
               | _ \<Rightarrow> 45))"

type_synonym zip_db = "string \<rightharpoonup> real \<times> real"

definition get_coordinates :: "zip_db \<Rightarrow> string \<Rightarrow> (real \<times> real) option" where
  \<comment> \<open>\<^verbatim>\<open>ZipCoordinatesDB.get_coordinates\<close>\<close>
  "get_coordinates coordinates zip_code = coordinates (zfill 5 zip_code)"

definition estimate_travel_time :: "zip_db \<Rightarrow> string \<Rightarrow> string \<Rightarrow> real \<Rightarrow> real" where
  \<comment> \<open>\<^verbatim>\<open>_estimate_travel_time\<close>; \<open>noise\<close> is the one normal draw the call makes.\<close>
  "estimate_travel_time db origin_zip dest_zip noise =
     (let origin_zip_5digit = zfill 5 origin_zip;
          dest_zip_5digit = zfill 5 dest_zip
      in case (get_coordinates db origin_zip_5digit, get_coordinates db dest_zip_5digit) of
           (Some origin_coords, Some dest_coords) \<Rightarrow>
             estimate_minutes (calculate_distance origin_coords dest_coords) noise
         | _ \<Rightarrow> fallback_travel_time_estimation origin_zip dest_zip noise)"

subsection \<open>Data frames\<close>

text \<open>
  A pandas DataFrame with the default index 0, 1, ..., n-1 is a list of columns with
  distinct names and equal length. A cell is a string, a number, or NaN (the missing
  value).
\<close>

datatype cell = Str string | Num real | NaN

type_synonym frame = "(string \<times> cell list) list"

definition column :: "frame \<Rightarrow> string \<Rightarrow> error + cell list" where
  \<comment> \<open>\<^verbatim>\<open>df[name]\<close>\<close>
  "column df name = (case map_of df name of None \<Rightarrow> Inl (KeyError name) | Some xs \<Rightarrow> Inr xs)"

definition has_column :: "frame \<Rightarrow> string \<Rightarrow> bool" where
  "has_column df name = (name \<in> set (map fst df))"

fun set_column :: "frame \<Rightarrow> string \<Rightarrow> cell list \<Rightarrow> frame" where
  \<comment> \<open>the frame after assignments into the column \<open>name\<close> (the one \<open>column\<close> reads)\<close>
  "set_column [] name xs = []"
| "set_column ((n, ys) # df) name xs =
     (if n = name then (n, xs) # df else (n, ys) # set_column df name xs)"

definition rename_column :: "frame \<Rightarrow> string \<Rightarrow> string \<Rightarrow> frame" where
  "rename_column df old new = map (\<lambda>(n, ys). if n = old then (new, ys) else (n, ys)) df"

definition nrows :: "frame \<Rightarrow> nat" where
  \<comment> \<open>\<^verbatim>\<open>len(df)\<close>\<close>
  "nrows df = (case df of [] \<Rightarrow> 0 | (_, xs) # _ \<Rightarrow> length xs)"

definition isna :: "cell \<Rightarrow> bool" where
  "isna c = (c = NaN)"

definition indices_where :: "('a \<Rightarrow> bool) \<Rightarrow> 'a list \<Rightarrow> nat list" where
  \<comment> \<open>the index labels of the rows selected by a boolean mask\<close>
  "indices_where P xs = map fst (filter (\<lambda>(i, x). P x) (enumerate 0 xs))"

definition select_where :: "('a \<Rightarrow> bool) \<Rightarrow> 'a list \<Rightarrow> 'b list \<Rightarrow> 'b list" where
  \<comment> \<open>\<^verbatim>\<open>ys[mask]\<close> for the mask \<open>map P xs\<close>\<close>
  "select_where P xs ys = map snd (filter (\<lambda>(x, y). P x) (zip xs ys))"

fun cell_eq :: "cell \<Rightarrow> cell \<Rightarrow> bool" where
  \<comment> \<open>elementwise \<^verbatim>\<open>==\<close>: NaN equals nothing, itself included\<close>
  "cell_eq (Str a) (Str b) = (a = b)"
| "cell_eq (Num a) (Num b) = (a = b)"
| "cell_eq _ _ = False"

fun drop_duplicates :: "'a list \<Rightarrow> 'a list" where
  \<comment> \<open>\<^verbatim>\<open>drop_duplicates()\<close> and \<^verbatim>\<open>unique()\<close>: the first occurrence is kept\<close>
  "drop_duplicates [] = []"
| "drop_duplicates (x # xs) = x # drop_duplicates (filter (\<lambda>y. y \<noteq> x) xs)"

fun cell_str :: "(real \<Rightarrow> string) \<Rightarrow> cell \<Rightarrow> string" where
  \<comment> \<open>\<^verbatim>\<open>str(v)\<close> and \<^verbatim>\<open>astype(str)\<close>; how a number prints is the parameter \<open>fmt\<close>\<close>
  "cell_str fmt (Str s) = s"
| "cell_str fmt (Num r) = fmt r"
| "cell_str fmt NaN = ''nan''"

subsection \<open>Library parameters\<close>

text \<open>
  What the code takes from Python, pandas and scikit-learn without defining it is a
  parameter of the model: how a number prints, how a string parses as a float, the
  k-nearest-neighbour query, the agglomerative clustering, the random forest, and
  whether pyarrow is installed. Every theorem holds for every value of these parameters
  unless it states an assumption on them.
\<close>

record library =
  str_of_num :: "real \<Rightarrow> string"
  float_of_str :: "string \<Rightarrow> real option"
  kneighbors :: "nat \<Rightarrow> real list list \<Rightarrow> real list list \<Rightarrow> error + (real list \<times> nat list) list"
  fit_predict :: "nat \<Rightarrow> real list list \<Rightarrow> error + nat list"
  forest_fit_predict :: "real list list \<Rightarrow> cell list \<Rightarrow> real list list \<Rightarrow> error + real list"
  pyarrow_available :: bool

subsection \<open>MatrixBuilder: state\<close>

record summary =
  total_pairs :: nat
  coverage :: "real option"
  mean_travel_time :: "real option"
  median_travel_time :: "real option"
  min_travel_time :: "real option"
  max_travel_time :: "real option"
  providers_count :: nat
  demand_areas_count :: nat

text \<open>
  The files the builder reads and writes. An input file is the frame \<^verbatim>\<open>pd.read_csv\<close>
  returns for it, \<open>None\<close> when the file does not exist.
\<close>

record filesystem =
  provider_file :: "frame option"
  demand_file :: "frame option"
  academic_file :: "frame option"
  travel_matrix_csv :: "frame option"
  travel_matrix_parquet :: "frame option"
  travel_matrix_summary :: "summary option"

record builder =
  max_error_rate :: real
  min_coverage :: real
  coordinates :: zip_db

subsection \<open>MatrixBuilder: load and materialize\<close>

definition map_column :: "frame \<Rightarrow> string \<Rightarrow> (cell \<Rightarrow> cell) \<Rightarrow> frame" where
  "map_column df name f = map (\<lambda>(n, ys). if n = name then (n, map f ys) else (n, ys)) df"

definition load_provider_data :: "library \<Rightarrow> filesystem \<Rightarrow> error + frame" where
  "load_provider_data L fs =
     (case provider_file fs of
        None \<Rightarrow> Inl (FileNotFoundError ''Provider data not found'')
      | Some df \<Rightarrow>
          if \<not> (has_column df ''provider_npi'' \<and> has_column df ''zip_code'')
          then Inl (ValueError ''Missing required columns in provider data'')
          else Inr (map_column (rename_column df ''provider_npi'' ''NPI'') ''zip_code''
                      (\<lambda>c. Str (zfill 5 (cell_str (str_of_num L) c)))))"

definition load_demand_data :: "library \<Rightarrow> filesystem \<Rightarrow> error + frame" where
  "load_demand_data L fs =
     (case demand_file fs of
        None \<Rightarrow> Inl (FileNotFoundError ''Demand data not found'')
      | Some df \<Rightarrow>
          if \<not> (has_column df ''zip_code'' \<and> has_column df ''demand_score'')
          then Inl (ValueError ''Missing required columns in demand data'')
          else Inr (map_column (rename_column df ''demand_score'' ''ensemble_demand_score'')
                      ''zip_code'' (\<lambda>c. Str (zfill 5 (cell_str (str_of_num L) c)))))"

definition provider_info :: "library \<Rightarrow> cell list \<Rightarrow> cell list \<Rightarrow> (cell \<times> string) list" where
  \<comment> \<open>\<^verbatim>\<open>provider_data_clean[['NPI', 'zip_5digit']].drop_duplicates()\<close>\<close>
  "provider_info L npis zips =
     drop_duplicates (zip npis (map (\<lambda>c. take 5 (cell_str (str_of_num L) c)) zips))"

definition target_pairs :: "(cell \<times> string) list \<Rightarrow> cell list \<Rightarrow> (cell \<times> cell) list" where
  \<comment> \<open>the nested loop: for each provider row, for each demand ZIP, one
      (demand ZIP, provider NPI) pair\<close>
  "target_pairs info demand_zips =
     concat (map (\<lambda>(provider_npi, provider_zip).
                    map (\<lambda>demand_zip. (demand_zip, provider_npi)) demand_zips) info)"

definition create_target_matrix :: "library \<Rightarrow> frame option \<Rightarrow> frame option \<Rightarrow> error + frame" where
  "create_target_matrix L provider_data demand_data =
     (case (provider_data, demand_data) of
        (Some pd, Some dd) \<Rightarrow>
          try_bind (column pd ''zip_code'') (\<lambda>zips.
          try_bind (column pd ''NPI'') (\<lambda>npis.
          try_bind (column dd ''zip_code'') (\<lambda>dzips.
            let pairs = target_pairs (provider_info L npis zips) (drop_duplicates dzips)
            in Inr [(''zip_code'', map fst pairs),
                    (''provider_npi'', map snd pairs),
                    (''drive_minutes'', replicate (length pairs) NaN)])))
      | _ \<Rightarrow> Inl (ValueError ''Provider data or demand data not loaded''))"

definition matrix_pairs :: "frame \<Rightarrow> (cell \<times> cell) list" where
  \<comment> \<open>the (demand_zip, provider_id) pair of each row of a builder matrix\<close>
  "matrix_pairs m =
     (case (column m ''zip_code'', column m ''provider_npi'') of
        (Inr zs, Inr ps) \<Rightarrow> zip zs ps
      | _ \<Rightarrow> [])"

subsection \<open>InterpolationEngine\<close>

definition travel_time_minutes :: string where
  "travel_time_minutes = ''travel_time_minutes''"

definition zip_part :: "(string \<Rightarrow> string) \<Rightarrow> cell \<Rightarrow> error + int" where
  \<comment> \<open>\<^verbatim>\<open>.str[slice].astype(int)\<close> on one cell\<close>
  "zip_part slice c =
     (case c of
        Str s \<Rightarrow> (case py_int (slice s) of
                    Some n \<Rightarrow> Inr n
                  | None \<Rightarrow> Inl (ValueError ''invalid literal for int()''))
      | Num r \<Rightarrow> Inl AttributeError
      | NaN \<Rightarrow> Inl (ValueError ''cannot convert float NaN to integer''))"

fun try_map :: "('a \<Rightarrow> error + 'b) \<Rightarrow> 'a list \<Rightarrow> error + 'b list" where
  "try_map f [] = Inr []"
| "try_map f (x # xs) =
     (case f x of
        Inl e \<Rightarrow> Inl e
      | Inr y \<Rightarrow> (case try_map f xs of Inl e \<Rightarrow> Inl e | Inr ys \<Rightarrow> Inr (y # ys)))"

definition raw_features :: "cell \<times> cell \<Rightarrow> error + real list" where
  \<comment> \<open>the nine columns of \<^verbatim>\<open>_create_zip_features\<close> for one row, before scaling\<close>
  "raw_features row =
     (let (origin_zip, destination_zip) = row in
      try_bind (zip_part (take 2) origin_zip) (\<lambda>o1.
      try_bind (zip_part (\<lambda>s. take 2 (drop 2 s)) origin_zip) (\<lambda>o2.
      try_bind (zip_part (drop 4) origin_zip) (\<lambda>o3.
      try_bind (zip_part (take 2) destination_zip) (\<lambda>d1.
      try_bind (zip_part (\<lambda>s. take 2 (drop 2 s)) destination_zip) (\<lambda>d2.
      try_bind (zip_part (drop 4) destination_zip) (\<lambda>d3.
        Inr (map real_of_int
               [o1, o2, o3, d1, d2, d3, \<bar>o1 - d1\<bar>, \<bar>o2 - d2\<bar>, \<bar>o3 - d3\<bar>]))))))))"

definition mean :: "real list \<Rightarrow> real" where
  "mean xs = sum_list xs / real (length xs)"

definition scale_column :: "real list \<Rightarrow> real list" where
  \<comment> \<open>StandardScaler on one column: centre on the mean, divide by the population
      standard deviation, which counts as 1 when it is 0\<close>
  "scale_column xs =
     (let mu = mean xs;
          var = mean (map (\<lambda>x. (x - mu)\<^sup>2) xs);
          scale = (if var = 0 then 1 else sqrt var)
      in map (\<lambda>x. (x - mu) / scale) xs)"

definition fit_transform :: "real list list \<Rightarrow> real list list" where
  \<comment> \<open>\<^verbatim>\<open>StandardScaler().fit_transform\<close> on a list of rows\<close>
  "fit_transform rows = transpose (map scale_column (transpose rows))"

definition create_zip_features :: "frame \<Rightarrow> error + real list list" where
  "create_zip_features matrix =
     try_bind (column matrix ''origin_zip'') (\<lambda>origins.
     try_bind (column matrix ''destination_zip'') (\<lambda>dests.
     try_bind (try_map raw_features (zip origins dests)) (\<lambda>raw.
       Inr (fit_transform raw))))"

fun is_str :: "cell \<Rightarrow> bool" where
  "is_str (Str s) = True"
| "is_str _ = False"

fun num_of :: "cell \<Rightarrow> real" where
  "num_of (Num r) = r"
| "num_of _ = 0"

definition np_average :: "cell list \<Rightarrow> real list \<Rightarrow> error + cell" where
  \<comment> \<open>\<^verbatim>\<open>np.average(values, weights=weights)\<close>: NaN when a value is NaN\<close>
  "np_average vs ws =
     (if length vs \<noteq> length ws \<or> list_ex is_str vs then Inl TypeError
      else if sum_list ws = 0 then Inl ZeroDivisionError
      else if list_ex isna vs then Inr NaN
      else Inr (Num (sum_list (map2 (\<lambda>v w. num_of v * w) vs ws) / sum_list ws)))"

fun nn_fill :: "(real list \<times> nat list) list \<Rightarrow> (nat \<times> nat) list \<Rightarrow> cell list \<Rightarrow> error + cell list" where
  \<comment> \<open>the loop over \<^verbatim>\<open>enumerate(missing_indices)\<close>; \<open>col\<close> is the travel-time column of
      \<^verbatim>\<open>result_matrix\<close>, read and written by each round. \<^verbatim>\<open>known_mask.index\<close> is the
      index of the whole frame, so a neighbour position \<open>j\<close> selects the row labelled \<open>j\<close>.\<close>
  "nn_fill neighbours [] col = Inr col"
| "nn_fill neighbours ((i, missing_idx) # rest) col =
     (if length neighbours \<le> i then Inl IndexError
      else
        (let (distances, indices) = neighbours ! i in
         if list_ex (\<lambda>j. length col \<le> j) indices then Inl IndexError
         else
           (let neighbor_values = map (\<lambda>j. col ! j) indices;
                neighbor_weights = map (\<lambda>d. 1 / (d + 1 / 10 ^ 6)) distances
            in case np_average neighbor_values neighbor_weights of
                 Inl e \<Rightarrow> Inl e
               | Inr interpolated_value \<Rightarrow>
                   nn_fill neighbours rest (col[missing_idx := interpolated_value]))))"

definition nearest_neighbor_interpolation :: "library \<Rightarrow> frame \<Rightarrow> nat \<Rightarrow> error + frame" where
  "nearest_neighbor_interpolation L matrix k =
     try_bind (column matrix travel_time_minutes) (\<lambda>times.
       let missing_indices = indices_where isna times in
       if missing_indices = [] then Inr matrix
       else
         try_bind (create_zip_features matrix) (\<lambda>features.
           let known_features = select_where (\<lambda>c. \<not> isna c) times features;
               missing_features = select_where isna times features
           in try_bind (kneighbors L (min k (length known_features))
                          known_features missing_features) (\<lambda>neighbours.
              try_bind (nn_fill neighbours (enumerate 0 missing_indices) times) (\<lambda>times'.
                Inr (set_column matrix travel_time_minutes times')))))"

definition zip_float :: "library \<Rightarrow> (string \<Rightarrow> string) \<Rightarrow> cell \<Rightarrow> error + real" where
  \<comment> \<open>\<^verbatim>\<open>.str[slice].astype(float)\<close> on one cell. For a NaN cell pandas yields a NaN
      coordinate, which a real number cannot represent: the model stops there, so the
      theorems on this strategy cover the frames whose ZIP cells are not NaN.\<close>
  "zip_float L slice c =
     (case c of
        Str s \<Rightarrow> (case float_of_str L (slice s) of
                    Some x \<Rightarrow> Inr x
                  | None \<Rightarrow> Inl (ValueError ''could not convert string to float''))
      | Num r \<Rightarrow> Inl AttributeError
      | NaN \<Rightarrow> Inl TypeError)"

definition zip_coordinate :: "library \<Rightarrow> cell \<times> cell \<Rightarrow> error + (real \<times> real)" where
  \<comment> \<open>\<^verbatim>\<open>_create_zip_coordinates\<close> for one row: the (lat, lon) centroid\<close>
  "zip_coordinate L row =
     (let (origin_zip, destination_zip) = row in
      try_bind (zip_float L (take 2) origin_zip) (\<lambda>o1.
      try_bind (zip_float L (\<lambda>s. take 2 (drop 2 s)) origin_zip) (\<lambda>o2.
      try_bind (zip_float L (drop 4) origin_zip) (\<lambda>o3.
      try_bind (zip_float L (take 2) destination_zip) (\<lambda>d1.
      try_bind (zip_float L (\<lambda>s. take 2 (drop 2 s)) destination_zip) (\<lambda>d2.
      try_bind (zip_float L (drop 4) destination_zip) (\<lambda>d3.
        let origin_lat = o1 + o2 / 100;
            origin_lon = - 120 + o3 / 10;
            dest_lat = d1 + d2 / 100;
            dest_lon = - 120 + d3 / 10
        in Inr ((origin_lat + dest_lat) / 2, (origin_lon + dest_lon) / 2))))))))"

definition create_zip_coordinates :: "library \<Rightarrow> frame \<Rightarrow> error + (real \<times> real) list" where
  "create_zip_coordinates L matrix =
     try_bind (column matrix ''origin_zip'') (\<lambda>origins.
     try_bind (column matrix ''destination_zip'') (\<lambda>dests.
       try_map (zip_coordinate L) (zip origins dests)))"

definition argmin :: "real list \<Rightarrow> nat option" where
  \<comment> \<open>the first position of the least element; \<open>None\<close> is the ValueError on an empty
      sequence\<close>
  "argmin ds =
     (case ds of
        [] \<Rightarrow> None
      | d # rest \<Rightarrow>
          Some (snd (foldl (\<lambda>(best, pos) (x, i). if x < best then (x, i) else (best, pos))
                       (d, 0) (zip rest [1..<Suc (length rest)]))))"

fun sw_fill :: "real \<Rightarrow> (real \<times> real) list \<Rightarrow> cell list \<Rightarrow> ((real \<times> real) \<times> nat) list
                \<Rightarrow> cell list \<Rightarrow> error + cell list" where
  \<comment> \<open>the loop of \<^verbatim>\<open>spatial_weighting_interpolation\<close>\<close>
  "sw_fill max_distance known_coords known_values [] col = Inr col"
| "sw_fill max_distance known_coords known_values ((missing_coord, missing_idx) # rest) col =
     (let distances =
            map (\<lambda>c. sqrt ((fst c - fst missing_coord)\<^sup>2 + (snd c - snd missing_coord)\<^sup>2) * 69)
              known_coords;
          within_range = filter (\<lambda>(d, v). d \<le> max_distance) (zip distances known_values);
          interpolated =
            (if within_range \<noteq> []
             then np_average (map snd within_range)
                    (map (\<lambda>(d, v). 1 / (d + 1 / 10 ^ 6)) within_range)
             else (case argmin distances of
                     None \<Rightarrow> Inl (ValueError ''attempt to get argmin of an empty sequence'')
                   | Some nearest_idx \<Rightarrow>
                       if nearest_idx < length known_values
                       then Inr (known_values ! nearest_idx) else Inl IndexError))
      in case interpolated of
           Inl e \<Rightarrow> Inl e
         | Inr interpolated_value \<Rightarrow>
             sw_fill max_distance known_coords known_values rest
               (col[missing_idx := interpolated_value]))"

definition spatial_weighting_interpolation :: "library \<Rightarrow> frame \<Rightarrow> real \<Rightarrow> error + frame" where
  "spatial_weighting_interpolation L matrix max_distance =
     try_bind (column matrix travel_time_minutes) (\<lambda>times.
       let missing_indices = indices_where isna times in
       if missing_indices = [] then Inr matrix
       else
         try_bind (create_zip_coordinates L matrix) (\<lambda>zip_coords.
           let known_coords = select_where (\<lambda>c. \<not> isna c) times zip_coords;
               known_values = filter (\<lambda>c. \<not> isna c) times;
               missing_coords = select_where isna times zip_coords
           in try_bind (sw_fill max_distance known_coords known_values
                          (zip missing_coords missing_indices) times) (\<lambda>times'.
                Inr (set_column matrix travel_time_minutes times'))))"

definition cluster_center :: "real list list \<Rightarrow> real list option" where
  \<comment> \<open>\<^verbatim>\<open>cluster_features.mean()\<close>: the column means; \<open>None\<close> is the all-NaN centre of
      an empty cluster\<close>
  "cluster_center rows = (if rows = [] then None else Some (map mean (transpose rows)))"

definition cluster_value :: "cell list \<Rightarrow> error + cell" where
  \<comment> \<open>\<^verbatim>\<open>cluster_travel_times.mean()\<close>: NaN for an empty cluster\<close>
  "cluster_value vs =
     (if list_ex is_str vs then Inl TypeError
      else if vs = [] then Inr NaN
      else Inr (Num (mean (map num_of vs))))"

definition euclidean :: "real list \<Rightarrow> real list \<Rightarrow> real" where
  \<comment> \<open>\<^verbatim>\<open>np.linalg.norm(x - y)\<close>\<close>
  "euclidean x y = sqrt (sum_list (map2 (\<lambda>a b. (a - b)\<^sup>2) x y))"

definition nc_step :: "real list \<Rightarrow> real option \<times> nat \<Rightarrow> nat \<times> real list option
                       \<Rightarrow> real option \<times> nat" where
  \<comment> \<open>one round of the loop over \<^verbatim>\<open>cluster_centers.items()\<close>: a NaN distance (the
      empty cluster's centre, \<open>None\<close>) is never smaller; \<open>min_distance = None\<close> is
      infinity\<close>
  "nc_step missing_feature =
     (\<lambda>(min_distance, nearest) (cluster_id, center).
        case center of
          None \<Rightarrow> (min_distance, nearest)
        | Some c \<Rightarrow>
            (let distance = euclidean missing_feature c in
             if (case min_distance of None \<Rightarrow> True | Some m \<Rightarrow> distance < m)
             then (Some distance, cluster_id)
             else (min_distance, nearest)))"

definition nearest_cluster :: "real list \<Rightarrow> real list option list \<Rightarrow> nat" where
  \<comment> \<open>the loop starts with \<open>min_distance\<close> infinite and \<open>nearest_cluster = 0\<close>\<close>
  "nearest_cluster missing_feature cluster_centers =
     snd (foldl (nc_step missing_feature) (None, 0) (enumerate 0 cluster_centers))"

fun hc_fill :: "real list option list \<Rightarrow> cell list \<Rightarrow> (real list \<times> nat) list \<Rightarrow> cell list
                \<Rightarrow> error + cell list" where
  \<comment> \<open>the loop that assigns each missing row the value of its nearest cluster\<close>
  "hc_fill cluster_centers cluster_values [] col = Inr col"
| "hc_fill cluster_centers cluster_values ((missing_feature, missing_idx) # rest) col =
     (let nearest = nearest_cluster missing_feature cluster_centers in
      if length cluster_values \<le> nearest then Inl (KeyError ''0'')
      else hc_fill cluster_centers cluster_values rest
             (col[missing_idx := cluster_values ! nearest]))"

definition hierarchical_clustering_interpolation :: "library \<Rightarrow> frame \<Rightarrow> nat \<Rightarrow> error + frame" where
  "hierarchical_clustering_interpolation L matrix n_clusters =
     try_bind (column matrix travel_time_minutes) (\<lambda>times.
       let missing_indices = indices_where isna times in
       if missing_indices = [] then Inr matrix
       else
         try_bind (create_zip_features matrix) (\<lambda>features.
           let known_features = select_where (\<lambda>c. \<not> isna c) times features;
               known_values = filter (\<lambda>c. \<not> isna c) times;
               n_clusters = min n_clusters (length known_features)
           in try_bind (fit_predict L n_clusters known_features) (\<lambda>cluster_labels.
                if length cluster_labels \<noteq> length known_features then Inl IndexError
                else
                  (let cluster_centers =
                         map (\<lambda>cluster_id. cluster_center
                                (select_where (\<lambda>l. l = cluster_id) cluster_labels known_features))
                           [0..<n_clusters]
                   in try_bind (try_map (\<lambda>cluster_id. cluster_value
                                  (select_where (\<lambda>l. l = cluster_id) cluster_labels known_values))
                                  [0..<n_clusters]) (\<lambda>cluster_values.
                        let missing_features = select_where isna times features
                        in try_bind (hc_fill cluster_centers cluster_values
                                       (zip missing_features missing_indices) times) (\<lambda>times'.
                             Inr (set_column matrix travel_time_minutes times')))))))"

fun ml_fill :: "real list \<Rightarrow> (nat \<times> nat) list \<Rightarrow> cell list \<Rightarrow> error + cell list" where
  \<comment> \<open>the loop that writes \<^verbatim>\<open>predicted_values[i]\<close> at each missing row\<close>
  "ml_fill predicted_values [] col = Inr col"
| "ml_fill predicted_values ((i, missing_idx) # rest) col =
     (if length predicted_values \<le> i then Inl IndexError
      else ml_fill predicted_values rest (col[missing_idx := Num (predicted_values ! i)]))"

definition machine_learning_interpolation :: "library \<Rightarrow> frame \<Rightarrow> error + frame" where
  "machine_learning_interpolation L matrix =
     try_bind (column matrix travel_time_minutes) (\<lambda>times.
       let missing_indices = indices_where isna times in
       if missing_indices = [] then Inr matrix
       else
         try_bind (create_zip_features matrix) (\<lambda>features.
           let known_features = select_where (\<lambda>c. \<not> isna c) times features;
               known_values = filter (\<lambda>c. \<not> isna c) times;
               missing_features = select_where isna times features
           in try_bind (forest_fit_predict L known_features known_values missing_features)
                (\<lambda>predicted_values.
                   try_bind (ml_fill predicted_values (enumerate 0 missing_indices) times)
                     (\<lambda>times'. Inr (set_column matrix travel_time_minutes times')))))"

subsection \<open>MatrixBuilder: fill phases, validation and persistence\<close>

definition drive_minutes :: string where
  "drive_minutes = ''drive_minutes''"

definition fill_with_academic_data :: "frame \<Rightarrow> frame" where
  \<comment> \<open>the placeholder of the source: nothing is merged\<close>
  "fill_with_academic_data target_matrix = target_matrix"

definition provider_zip_lookup :: "frame \<Rightarrow> cell \<Rightarrow> error + cell option" where
  \<comment> \<open>\<^verbatim>\<open>provider_data[provider_data['NPI'] == provider_npi]\<close>, then
      \<^verbatim>\<open>.iloc[0]['zip_code']\<close> unless the selection is empty\<close>
  "provider_zip_lookup pd provider_npi =
     try_bind (column pd ''NPI'') (\<lambda>npis.
       if \<not> list_ex (cell_eq provider_npi) npis then Inr None
       else try_bind (column pd ''zip_code'') (\<lambda>zips.
              case select_where (cell_eq provider_npi) npis zips of
                [] \<Rightarrow> Inl IndexError
              | z # _ \<Rightarrow> Inr (Some z)))"

fun osrm_fill :: "builder \<Rightarrow> library \<Rightarrow> frame option \<Rightarrow> (nat \<Rightarrow> real) \<Rightarrow> cell list \<Rightarrow> cell list
                  \<Rightarrow> nat list \<Rightarrow> cell list \<Rightarrow> error + cell list" where
  \<comment> \<open>the loop over the missing rows; \<open>noise idx\<close> is the normal draw of round \<open>idx\<close>\<close>
  "osrm_fill b L provider_data noise zip_codes provider_npis [] col = Inr col"
| "osrm_fill b L provider_data noise zip_codes provider_npis (idx # rest) col =
     (case provider_data of
        None \<Rightarrow> osrm_fill b L provider_data noise zip_codes provider_npis rest col
      | Some pd \<Rightarrow>
          (case provider_zip_lookup pd (provider_npis ! idx) of
             Inl e \<Rightarrow> Inl e
           | Inr None \<Rightarrow> osrm_fill b L provider_data noise zip_codes provider_npis rest col
           | Inr (Some z) \<Rightarrow>
               (let provider_zip = take 5 (cell_str (str_of_num L) z);
                    travel_time = estimate_travel_time (coordinates b) provider_zip
                                    (cell_str (str_of_num L) (zip_codes ! idx)) (noise idx)
                in osrm_fill b L provider_data noise zip_codes provider_npis rest
                     (col[idx := Num travel_time]))))"

definition fill_with_osrm_data :: "builder \<Rightarrow> library \<Rightarrow> frame option \<Rightarrow> (nat \<Rightarrow> real) \<Rightarrow> frame
                                   \<Rightarrow> error + frame" where
  "fill_with_osrm_data b L provider_data noise target_matrix =
     try_bind (column target_matrix drive_minutes) (\<lambda>col.
       let missing = indices_where isna col in
       if missing = [] then Inr target_matrix
       else
         try_bind (column target_matrix ''zip_code'') (\<lambda>zip_codes.
         try_bind (column target_matrix ''provider_npi'') (\<lambda>provider_npis.
         try_bind (osrm_fill b L provider_data noise zip_codes provider_npis missing col) (\<lambda>col'.
           Inr (set_column target_matrix drive_minutes col')))))"

definition interpolate_remaining_gaps :: "library \<Rightarrow> frame \<Rightarrow> error + frame" where
  \<comment> \<open>the builder's matrix itself is handed to the engine, with the default \<open>k = 5\<close>\<close>
  "interpolate_remaining_gaps L target_matrix =
     try_bind (column target_matrix drive_minutes) (\<lambda>col.
       if indices_where isna col = [] then Inr target_matrix
       else nearest_neighbor_interpolation L target_matrix 5)"

definition matrix_coverage :: "cell list \<Rightarrow> real option" where
  \<comment> \<open>\<^verbatim>\<open>1 - col.isna().mean()\<close>; \<open>None\<close> is the NaN of an empty column\<close>
  "matrix_coverage col =
     (if col = [] then None
      else Some (1 - real (length (filter isna col)) / real (length col)))"

definition validate_matrix :: "builder \<Rightarrow> frame \<Rightarrow> error + frame" where
  \<comment> \<open>returns the matrix as the in-place correction of negative times leaves it\<close>
  "validate_matrix b matrix =
     try_bind (column matrix drive_minutes) (\<lambda>col.
       if (case matrix_coverage col of Some c \<Rightarrow> c < min_coverage b | None \<Rightarrow> False)
       then Inl (ValueError ''Matrix coverage below minimum'')
       else if list_ex is_str col then Inl TypeError
       else Inr (set_column matrix drive_minutes
                   (map (\<lambda>c. case c of Num r \<Rightarrow> if r < 0 then Num 5 else c | _ \<Rightarrow> c) col)))"

definition numbers :: "cell list \<Rightarrow> real list" where
  "numbers col = map num_of (filter (\<lambda>c. \<not> isna c) col)"

definition median :: "real list \<Rightarrow> real" where
  "median xs =
     (let s = sort xs; n = length s in
      if even n then (s ! (n div 2 - 1) + s ! (n div 2)) / 2 else s ! (n div 2))"

definition stat :: "(real list \<Rightarrow> real) \<Rightarrow> cell list \<Rightarrow> real option" where
  \<comment> \<open>a pandas reduction that skips NaN and is NaN on nothing\<close>
  "stat f col = (if numbers col = [] then None else Some (f (numbers col)))"

definition nunique :: "cell list \<Rightarrow> nat" where
  "nunique col = length (drop_duplicates (filter (\<lambda>c. \<not> isna c) col))"

definition matrix_summary :: "frame \<Rightarrow> error + summary" where
  "matrix_summary matrix =
     try_bind (column matrix drive_minutes) (\<lambda>col.
     try_bind (column matrix ''provider_npi'') (\<lambda>npis.
     try_bind (column matrix ''zip_code'') (\<lambda>zips.
       Inr \<lparr>total_pairs = nrows matrix,
            coverage = matrix_coverage col,
            mean_travel_time = stat mean col,
            median_travel_time = stat median col,
            min_travel_time = stat (\<lambda>xs. Min (set xs)) col,
            max_travel_time = stat (\<lambda>xs. Max (set xs)) col,
            providers_count = nunique npis,
            demand_areas_count = nunique zips\<rparr>)))"

definition save_matrix :: "library \<Rightarrow> frame \<Rightarrow> filesystem \<Rightarrow> (error + unit) \<times> filesystem" where
  \<comment> \<open>CSV first, parquet when pyarrow is there, then the summary\<close>
  "save_matrix L matrix fs =
     (let fs1 = fs\<lparr>travel_matrix_csv := Some matrix\<rparr>;
          fs2 = (if pyarrow_available L then fs1\<lparr>travel_matrix_parquet := Some matrix\<rparr> else fs1)
      in case matrix_summary matrix of
           Inl e \<Rightarrow> (Inl e, fs2)
         | Inr s \<Rightarrow> (Inr (), fs2\<lparr>travel_matrix_summary := Some s\<rparr>))"

definition computed_fill :: "builder \<Rightarrow> library \<Rightarrow> (nat \<Rightarrow> real) \<Rightarrow> filesystem \<Rightarrow> error + frame" where
  \<comment> \<open>phases 1 to 4 of \<^verbatim>\<open>build_travel_matrix\<close>: load, materialize, authoritative merge,
      computed fill. \<^verbatim>\<open>download_academic_dataset\<close> is left out: it reads the optional
      file or draws a placeholder into an attribute that no later phase reads.\<close>
  "computed_fill b L noise fs =
     try_bind (load_provider_data L fs) (\<lambda>provider_data.
     try_bind (load_demand_data L fs) (\<lambda>demand_data.
     try_bind (create_target_matrix L (Some provider_data) (Some demand_data)) (\<lambda>target_matrix.
       fill_with_osrm_data b L (Some provider_data) noise
         (fill_with_academic_data target_matrix))))"

definition fill_phases :: "builder \<Rightarrow> library \<Rightarrow> (nat \<Rightarrow> real) \<Rightarrow> filesystem \<Rightarrow> error + frame" where
  \<comment> \<open>phases 1 to 5; none of them writes a file\<close>
  "fill_phases b L noise fs =
     try_bind (computed_fill b L noise fs) (\<lambda>target_matrix.
       interpolate_remaining_gaps L target_matrix)"

definition build_travel_matrix :: "builder \<Rightarrow> library \<Rightarrow> (nat \<Rightarrow> real) \<Rightarrow> filesystem
                                   \<Rightarrow> (error + frame) \<times> filesystem" where
  \<comment> \<open>the result and the files after the call\<close>
  "build_travel_matrix b L noise fs =
     (case fill_phases b L noise fs of
        Inl e \<Rightarrow> (Inl e, fs)
      | Inr target_matrix \<Rightarrow>
          (case validate_matrix b target_matrix of
             Inl e \<Rightarrow> (Inl e, fs)
           | Inr target_matrix \<Rightarrow>
               (case save_matrix L target_matrix fs of
                  (Inl e, fs') \<Rightarrow> (Inl e, fs')
                | (Inr u, fs') \<Rightarrow> (Inr target_matrix, fs'))))"

subsection \<open>Predicates of the claims and concrete inputs\<close>

definition same_known :: "cell list \<Rightarrow> cell list \<Rightarrow> bool" where
  \<comment> \<open>column \<open>ys\<close> agrees with column \<open>xs\<close> wherever \<open>xs\<close> is not NaN\<close>
  "same_known xs ys = list_all2 (\<lambda>x y. isna x \<or> y = x) xs ys"

definition frame_same_known :: "frame \<Rightarrow> frame \<Rightarrow> bool" where
  \<comment> \<open>same columns in the same order; the travel-time column keeps its known entries,
      every other column is unchanged\<close>
  "frame_same_known m m' =
     list_all2 (\<lambda>(n, xs) (n', ys).
        n' = n \<and> (if n = travel_time_minutes then same_known xs ys else ys = xs)) m m'"

definition regular_frame :: "frame \<Rightarrow> bool" where
  \<comment> \<open>every column has the length of the frame, as in any DataFrame\<close>
  "regular_frame m = list_all (\<lambda>(n, xs). length xs = nrows m) m"

definition labels_in_range :: "library \<Rightarrow> bool" where
  \<comment> \<open>what scikit-learn promises of \<^verbatim>\<open>fit_predict\<close>: the labels of \<open>k\<close> clusters are
      below \<open>k\<close>\<close>
  "labels_in_range L = (\<forall>k X ls. fit_predict L k X = Inr ls \<longrightarrow> list_all (\<lambda>l. l < k) ls)"

text \<open>
  An instance of the library parameters, to run the model on concrete inputs.
  \<open>ref_kneighbors\<close> is the exact search (Euclidean distance, nearest first, ties in
  index order). The clustering and the regressor are simple functions with the
  interface of the scikit-learn estimators, not their algorithms.
\<close>

definition ref_kneighbors :: "nat \<Rightarrow> real list list \<Rightarrow> real list list
                              \<Rightarrow> error + (real list \<times> nat list) list" where
  "ref_kneighbors n X Q =
     (if n = 0 \<or> X = [] then Inl (ValueError ''kneighbors'')
      else Inr (map (\<lambda>q. let ranked = take n (sort_key fst
                                           (zip (map (euclidean q) X) [0..<length X]))
                          in (map fst ranked, map snd ranked)) Q))"

definition ref_fit_predict :: "nat \<Rightarrow> real list list \<Rightarrow> error + nat list" where
  "ref_fit_predict n X =
     (if n = 0 \<or> length X < 2 then Inl (ValueError ''fit_predict'')
      else Inr (map (\<lambda>i. i mod n) [0..<length X]))"

definition ref_forest :: "real list list \<Rightarrow> cell list \<Rightarrow> real list list \<Rightarrow> error + real list" where
  "ref_forest X y Q =
     (if X = [] then Inl (ValueError ''fit'') else Inr (map (\<lambda>q. mean (map num_of y)) Q))"

definition ref_library :: library where
  "ref_library =
     \<lparr>str_of_num = (\<lambda>r. ''0''),
      float_of_str = (\<lambda>s. map_option real_of_int (py_int s)),
      kneighbors = ref_kneighbors,
      fit_predict = ref_fit_predict,
      forest_fit_predict = ref_forest,
      pyarrow_available = True\<rparr>"

definition two_site_roster :: frame where
  \<comment> \<open>a loaded provider roster: one provider identifier, listed with two ZIP codes\<close>
  "two_site_roster =
     [(''NPI'', [Num 1234567890, Num 1234567890]),
      (''zip_code'', [Str ''90001'', Str ''94102''])]"

definition one_demand_area :: frame where
  "one_demand_area = [(''zip_code'', [Str ''90210'']), (''ensemble_demand_score'', [Num 1])]"

definition unfilled_builder_matrix :: frame where
  \<comment> \<open>a builder matrix whose single entry is still unset after the computed fill\<close>
  "unfilled_builder_matrix =
     [(''zip_code'', [Str ''90210'']),
      (''provider_npi'', [Num 1234567890]),
      (''drive_minutes'', [NaN])]"

definition gap_first_matrix :: frame where
  \<comment> \<open>an engine matrix: the unknown entry is row 0, the only known entry is row 1\<close>
  "gap_first_matrix =
     [(''origin_zip'', [Str ''90001'', Str ''90001'']),
      (''destination_zip'', [Str ''90210'', Str ''90210'']),
      (''travel_time_minutes'', [NaN, Num 30])]"

definition shifted_matrix :: frame where
  \<comment> \<open>an engine matrix: row 0 is unknown and has the ZIP pair of the known row 3\<close>
  "shifted_matrix =
     [(''origin_zip'', [Str ''90001'', Str ''94102'', Str ''94102'', Str ''90001'']),
      (''destination_zip'', [Str ''90001'', Str ''94102'', Str ''94102'', Str ''90001'']),
      (''travel_time_minutes'', [NaN, Num 10, Num 50, Num 90])]"

definition sparse_matrix :: frame where
  \<comment> \<open>an engine matrix with two known entries and one unknown entry\<close>
  "sparse_matrix =
     [(''origin_zip'', [Str ''90001'', Str ''90001'', Str ''90001'']),
      (''destination_zip'', [Str ''90210'', Str ''90210'', Str ''90210'']),
      (''travel_time_minutes'', [Num 30, Num 40, NaN])]"

definition filled_matrix :: "real \<Rightarrow> frame" where
  \<comment> \<open>\<open>sparse_matrix\<close> with the unknown entry set to \<open>v\<close>\<close>
  "filled_matrix v =
     [(''origin_zip'', [Str ''90001'', Str ''90001'', Str ''90001'']),
      (''destination_zip'', [Str ''90210'', Str ''90210'', Str ''90210'']),
      (''travel_time_minutes'', [Num 30, Num 40, Num v])]"

definition default_builder :: "zip_db \<Rightarrow> builder" where
  \<comment> \<open>the builder with the default thresholds, over any coordinate table\<close>
  "default_builder db = \<lparr>max_error_rate = 15 / 100, min_coverage = 95 / 100, coordinates = db\<rparr>"

definition gap_files :: filesystem where
  \<comment> \<open>two roster rows, the second without provider identifier; one demand ZIP; no
      output file yet\<close>
  "gap_files =
     \<lparr>provider_file = Some [(''provider_npi'', [Num 1234567890, NaN]),
                             (''zip_code'', [Str ''90001'', Str ''94102''])],
      demand_file = Some [(''zip_code'', [Str ''90210'']), (''demand_score'', [Num 1])],
      academic_file = None,
      travel_matrix_csv = None,
      travel_matrix_parquet = None,
      travel_matrix_summary = None\<rparr>"

definition last_apart :: "nat \<Rightarrow> real list list \<Rightarrow> error + nat list" where
  \<comment> \<open>a clustering that puts the last sample in the last cluster and the others in
      cluster 0; on the known rows of \<open>shifted_matrix\<close> with two clusters this is the
      partition into the two equal rows and the third\<close>
  "last_apart k X =
     (if k = 0 \<or> length X < 2 then Inl (ValueError ''fit_predict'')
      else Inr (map (\<lambda>i. if Suc i = length X then k - 1 else 0) [0..<length X]))"

definition apart_library :: library where
  "apart_library = ref_library\<lparr>fit_predict := last_apart\<rparr>"

definition shifted_filled :: "real \<Rightarrow> frame" where
  \<comment> \<open>\<open>shifted_matrix\<close> with the unknown entry set to \<open>v\<close>\<close>
  "shifted_filled v =
     [(''origin_zip'', [Str ''90001'', Str ''94102'', Str ''94102'', Str ''90001'']),
      (''destination_zip'', [Str ''90001'', Str ''94102'', Str ''94102'', Str ''90001'']),
      (''travel_time_minutes'', [Num v, Num 10, Num 50, Num 90])]"

section \<open>Properties\<close>

subsection \<open>Helper facts\<close>

lemma sin_half_diff_sq: "(sin ((x - y) / 2))\<^sup>2 = (sin ((y - x) / 2))\<^sup>2" for x y :: real
proof -
  have "(x - y) / 2 = - ((y - x) / 2)" by argo
  then have "sin ((x - y) / 2) = - sin ((y - x) / 2)" by (metis sin_minus)
  then show ?thesis by simp
qed




lemma set_drop_duplicates: "set (drop_duplicates xs) = set xs"
  by (induction xs rule: drop_duplicates.induct) auto

lemma distinct_drop_duplicates: "distinct (drop_duplicates xs)"
  by (induction xs rule: drop_duplicates.induct) (auto simp: set_drop_duplicates)

lemma filter_neq_id: "a \<notin> set xs \<Longrightarrow> filter (\<lambda>y. y \<noteq> a) xs = xs"
  by (induction xs) auto

lemma drop_duplicates_id: "distinct xs \<Longrightarrow> drop_duplicates xs = xs"
  by (induction xs) (auto simp: filter_neq_id)

lemma length_target_pairs: "length (target_pairs info dz) = length info * length dz"
  by (induction info) (auto simp: target_pairs_def)

lemma distinct_target_pairs:
  "distinct (map fst info) \<Longrightarrow> distinct dz \<Longrightarrow> distinct (target_pairs info dz)"
proof (induction info)
  case Nil
  then show ?case by (simp add: target_pairs_def)
next
  case (Cons a info)
  obtain npi z where a: "a = (npi, z)" by (cases a)
  have tl: "distinct (target_pairs info dz)" using Cons by simp
  have hd: "distinct (map (\<lambda>d. (d, npi)) dz)"
    using Cons.prems(2) by (simp add: distinct_map inj_on_def)
  have disj: "set (map (\<lambda>d. (d, npi)) dz) \<inter> set (target_pairs info dz) = {}"
    using Cons.prems(1) unfolding a target_pairs_def by force
  have "target_pairs (a # info) dz = map (\<lambda>d. (d, npi)) dz @ target_pairs info dz"
    by (simp add: target_pairs_def a)
  then show ?case using tl hd disj by simp
qed

text \<open>Evaluation of the ZIP features on the concrete matrices.\<close>

lemmas parse_defs =
  zip_part_def py_int_def strip_def is_space_def digit_val_def numeral_2_eq_2 try_bind_def

lemma raw_features_94102: "raw_features (Str ''94102'', Str ''94102'') = Inr [94, 10, 2, 94, 10, 2, 0, 0, 0]"
  by (simp add: raw_features_def parse_defs)

lemma raw_features_90001: "raw_features (Str ''90001'', Str ''90001'') = Inr [90, 0, 1, 90, 0, 1, 0, 0, 0]"
  by (simp add: raw_features_def parse_defs)

lemma sqrt_25: "sqrt 25 = 5"
  using real_sqrt_abs [of 5] by simp

lemma sqrt_quarter: "sqrt (1 / 4) = 1 / 2"
  using real_sqrt_abs [of "1 / 2"] by (simp add: power2_eq_square)

lemma scale_column_a: "scale_column [90, 94, 94, 90] = [- 1, 1, 1, - 1]"
  by (simp add: scale_column_def mean_def power2_eq_square)

lemma scale_column_b: "scale_column [0, 10, 10, 0] = [- 1, 1, 1, - 1]"
  by (simp add: scale_column_def mean_def power2_eq_square sqrt_25)

lemma scale_column_c: "scale_column [1, 2, 2, 1] = [- 1, 1, 1, - 1]"
  by (simp add: scale_column_def mean_def power2_eq_square sqrt_quarter)

lemma scale_column_zero: "scale_column [0, 0, 0, 0] = [0, 0, 0, 0]"
  by (simp add: scale_column_def mean_def)

lemma fit_transform_shifted:
  "fit_transform [[90, 0, 1, 90, 0, 1, 0, 0, 0], [94, 10, 2, 94, 10, 2, 0, 0, 0],
                  [94, 10, 2, 94, 10, 2, 0, 0, 0], [90, 0, 1, 90, 0, 1, 0, 0, 0]]
   = [[- 1, - 1, - 1, - 1, - 1, - 1, 0, 0, 0], [1, 1, 1, 1, 1, 1, 0, 0, 0],
      [1, 1, 1, 1, 1, 1, 0, 0, 0], [- 1, - 1, - 1, - 1, - 1, - 1, 0, 0, 0]]"
  unfolding fit_transform_def
  by (simp add: transpose.simps scale_column_zero scale_column_a scale_column_b scale_column_c)

lemma features_shifted:
  "create_zip_features shifted_matrix
   = Inr [[- 1, - 1, - 1, - 1, - 1, - 1, 0, 0, 0], [1, 1, 1, 1, 1, 1, 0, 0, 0],
          [1, 1, 1, 1, 1, 1, 0, 0, 0], [- 1, - 1, - 1, - 1, - 1, - 1, 0, 0, 0]]"
  by (simp add: create_zip_features_def shifted_matrix_def column_def try_bind_def
      raw_features_94102 raw_features_90001 fit_transform_shifted)

lemma kneighbors_shifted:
  "ref_kneighbors (Suc 0)
     [[1, 1, 1, 1, 1, 1, 0, 0, 0], [1, 1, 1, 1, 1, 1, 0, 0, 0],
      [- 1, - 1, - 1, - 1, - 1, - 1, 0, 0, 0]]
     [[- 1, - 1, - 1, - 1, - 1, - 1, 0, 0, 0]] = Inr [([0], [2])]"
  by (simp add: ref_kneighbors_def euclidean_def upt_rec)

text \<open>The fill loops write at the missing rows only.\<close>

lemma set_indices_where: "set (indices_where P xs) = {i. i < length xs \<and> P (xs ! i)}"
proof -
  have "set (indices_where P xs) = fst ` {p \<in> set (enumerate 0 xs). P (snd p)}"
    by (auto simp: indices_where_def case_prod_beta)
  also have "\<dots> = {i. i < length xs \<and> P (xs ! i)}"
    by (auto simp: in_set_enumerate_eq image_iff)
  finally show ?thesis .
qed

lemma indices_where_Nil: "(indices_where P xs = []) = (\<forall>x \<in> set xs. \<not> P x)"
proof -
  have "(indices_where P xs = []) = (set (indices_where P xs) = {})" by simp
  also have "\<dots> = (\<forall>i < length xs. \<not> P (xs ! i))"
    unfolding set_indices_where by auto
  also have "\<dots> = (\<forall>x \<in> set xs. \<not> P x)"
    by (metis in_set_conv_nth)
  finally show ?thesis .
qed

lemma nn_fill_frame:
  "nn_fill nb ps col = Inr col' \<Longrightarrow>
     length col' = length col \<and> (\<forall>j. j \<notin> snd ` set ps \<longrightarrow> col' ! j = col ! j)"
proof (induction ps arbitrary: col)
  case Nil
  then show ?case by simp
next
  case (Cons p ps)
  obtain i idx where p: "p = (i, idx)" by (cases p)
  from Cons.prems obtain v where rec: "nn_fill nb ps (col[idx := v]) = Inr col'"
    unfolding p by (auto simp: Let_def split: if_splits prod.splits sum.splits)
  from Cons.IH [OF rec] show ?case unfolding p by auto
qed

lemma sw_fill_frame:
  "sw_fill r kc kv ps col = Inr col' \<Longrightarrow>
     length col' = length col \<and> (\<forall>j. j \<notin> snd ` set ps \<longrightarrow> col' ! j = col ! j)"
proof (induction ps arbitrary: col)
  case Nil
  then show ?case by simp
next
  case (Cons p ps)
  obtain c idx where p: "p = (c, idx)" by (cases p)
  from Cons.prems obtain v where rec: "sw_fill r kc kv ps (col[idx := v]) = Inr col'"
    unfolding p by (auto simp: Let_def split: sum.splits)
  from Cons.IH [OF rec] show ?case unfolding p by auto
qed

lemma hc_fill_frame:
  "hc_fill cs vs ps col = Inr col' \<Longrightarrow>
     length col' = length col \<and> (\<forall>j. j \<notin> snd ` set ps \<longrightarrow> col' ! j = col ! j)"
proof (induction ps arbitrary: col)
  case Nil
  then show ?case by simp
next
  case (Cons p ps)
  obtain f idx where p: "p = (f, idx)" by (cases p)
  from Cons.prems obtain v where rec: "hc_fill cs vs ps (col[idx := v]) = Inr col'"
    unfolding p by (auto simp: Let_def split: if_splits)
  from Cons.IH [OF rec] show ?case unfolding p by auto
qed

lemma ml_fill_frame:
  "ml_fill pv ps col = Inr col' \<Longrightarrow>
     length col' = length col \<and> (\<forall>j. j \<notin> snd ` set ps \<longrightarrow> col' ! j = col ! j)"
proof (induction ps arbitrary: col)
  case Nil
  then show ?case by simp
next
  case (Cons p ps)
  obtain i idx where p: "p = (i, idx)" by (cases p)
  from Cons.prems obtain v where rec: "ml_fill pv ps (col[idx := v]) = Inr col'"
    unfolding p by (auto split: if_splits)
  from Cons.IH [OF rec] show ?case unfolding p by auto
qed

lemma same_known_refl: "same_known xs xs"
  by (simp add: same_known_def list_all2_same)

lemma same_known_fill:
  assumes "length col' = length col"
      and "\<forall>j. j \<notin> set (indices_where isna col) \<longrightarrow> col' ! j = col ! j"
  shows "same_known col col'"
  unfolding same_known_def list_all2_conv_all_nth
  using assms by (auto simp: set_indices_where)

lemma snd_enumerate: "snd ` set (enumerate n xs) = set xs"
  by (metis map_snd_enumerate set_map)

lemma snd_zip_subset: "snd ` set (zip xs ys) \<subseteq> set ys"
  by (auto dest: set_zip_rightD)

lemma frame_same_known_refl: "frame_same_known m m"
  by (auto simp: frame_same_known_def list_all2_same same_known_refl)

lemma frame_same_known_set_column:
  "column m travel_time_minutes = Inr xs \<Longrightarrow> same_known xs ys
     \<Longrightarrow> frame_same_known m (set_column m travel_time_minutes ys)"
proof (induction m)
  case Nil
  then show ?case by (simp add: column_def)
next
  case (Cons c m)
  obtain n zs where c: "c = (n, zs)" by (cases c)
  show ?case
  proof (cases "n = travel_time_minutes")
    case True
    with Cons.prems c have "zs = xs" by (simp add: column_def)
    with True c Cons.prems(2) show ?thesis
      using frame_same_known_refl [of m] by (simp add: frame_same_known_def)
  next
    case False
    with Cons.prems c have "column m travel_time_minutes = Inr xs"
      by (simp add: column_def)
    from Cons.IH [OF this Cons.prems(2)] False c show ?thesis
      by (simp add: frame_same_known_def)
  qed
qed


lemma nearest_neighbor_frame:
  assumes "nearest_neighbor_interpolation L m k = Inr m'"
  shows "frame_same_known m m'"
proof -
  from assms obtain times where col: "column m travel_time_minutes = Inr times"
    by (auto simp: nearest_neighbor_interpolation_def try_bind_def split: sum.splits)
  show ?thesis
  proof (cases "indices_where isna times = []")
    case True
    with assms col have "m' = m"
      by (simp add: nearest_neighbor_interpolation_def try_bind_def)
    then show ?thesis by (simp add: frame_same_known_refl)
  next
    case False
    with assms col obtain nb times' where
      fill: "nn_fill nb (enumerate 0 (indices_where isna times)) times = Inr times'"
      and m': "m' = set_column m travel_time_minutes times'"
      by (auto simp: nearest_neighbor_interpolation_def try_bind_def Let_def split: sum.splits)
    from nn_fill_frame [OF fill] have "same_known times times'"
      by (intro same_known_fill) (simp_all add: snd_enumerate)
    with col m' show ?thesis by (simp add: frame_same_known_set_column)
  qed
qed

lemma spatial_weighting_frame:
  assumes "spatial_weighting_interpolation L m r = Inr m'"
  shows "frame_same_known m m'"
proof -
  from assms obtain times where col: "column m travel_time_minutes = Inr times"
    by (auto simp: spatial_weighting_interpolation_def try_bind_def split: sum.splits)
  show ?thesis
  proof (cases "indices_where isna times = []")
    case True
    with assms col have "m' = m"
      by (simp add: spatial_weighting_interpolation_def try_bind_def)
    then show ?thesis by (simp add: frame_same_known_refl)
  next
    case False
    with assms col obtain kc kv mc times' where
      fill: "sw_fill r kc kv (zip mc (indices_where isna times)) times = Inr times'"
      and m': "m' = set_column m travel_time_minutes times'"
      by (auto simp: spatial_weighting_interpolation_def try_bind_def Let_def split: sum.splits)
    have "length times' = length times"
      using sw_fill_frame [OF fill] by simp
    moreover have "\<forall>j. j \<notin> set (indices_where isna times) \<longrightarrow> times' ! j = times ! j"
      using sw_fill_frame [OF fill] snd_zip_subset [of mc "indices_where isna times"] by blast
    ultimately have "same_known times times'"
      by (rule same_known_fill)
    with col m' show ?thesis by (simp add: frame_same_known_set_column)
  qed
qed

lemma hierarchical_clustering_frame:
  assumes "hierarchical_clustering_interpolation L m n = Inr m'"
  shows "frame_same_known m m'"
proof -
  from assms obtain times where col: "column m travel_time_minutes = Inr times"
    by (auto simp: hierarchical_clustering_interpolation_def try_bind_def split: sum.splits)
  show ?thesis
  proof (cases "indices_where isna times = []")
    case True
    with assms col have "m' = m"
      by (simp add: hierarchical_clustering_interpolation_def try_bind_def)
    then show ?thesis by (simp add: frame_same_known_refl)
  next
    case False
    with assms col obtain cs vs mf times' where
      fill: "hc_fill cs vs (zip mf (indices_where isna times)) times = Inr times'"
      and m': "m' = set_column m travel_time_minutes times'"
      by (auto simp: hierarchical_clustering_interpolation_def try_bind_def Let_def
          split: sum.splits if_splits)
    have "length times' = length times"
      using hc_fill_frame [OF fill] by simp
    moreover have "\<forall>j. j \<notin> set (indices_where isna times) \<longrightarrow> times' ! j = times ! j"
      using hc_fill_frame [OF fill] snd_zip_subset [of mf "indices_where isna times"] by blast
    ultimately have "same_known times times'"
      by (rule same_known_fill)
    with col m' show ?thesis by (simp add: frame_same_known_set_column)
  qed
qed

lemma machine_learning_frame:
  assumes "machine_learning_interpolation L m = Inr m'"
  shows "frame_same_known m m'"
proof -
  from assms obtain times where col: "column m travel_time_minutes = Inr times"
    by (auto simp: machine_learning_interpolation_def try_bind_def split: sum.splits)
  show ?thesis
  proof (cases "indices_where isna times = []")
    case True
    with assms col have "m' = m"
      by (simp add: machine_learning_interpolation_def try_bind_def)
    then show ?thesis by (simp add: frame_same_known_refl)
  next
    case False
    with assms col obtain pv times' where
      fill: "ml_fill pv (enumerate 0 (indices_where isna times)) times = Inr times'"
      and m': "m' = set_column m travel_time_minutes times'"
      by (auto simp: machine_learning_interpolation_def try_bind_def Let_def split: sum.splits)
    from ml_fill_frame [OF fill] have "same_known times times'"
      by (intro same_known_fill) (simp_all add: snd_enumerate)
    with col m' show ?thesis by (simp add: frame_same_known_set_column)
  qed
qed

lemma fully_known_noop:
  assumes "column m travel_time_minutes = Inr ts" and "list_all (\<lambda>c. \<not> isna c) ts"
  shows "nearest_neighbor_interpolation L m k = Inr m"
    and "spatial_weighting_interpolation L m r = Inr m"
    and "hierarchical_clustering_interpolation L m n = Inr m"
    and "machine_learning_interpolation L m = Inr m"
proof -
  from assms(2) have "indices_where isna ts = []"
    by (simp add: indices_where_Nil list_all_iff)
  with assms(1) show "nearest_neighbor_interpolation L m k = Inr m"
    and "spatial_weighting_interpolation L m r = Inr m"
    and "hierarchical_clustering_interpolation L m n = Inr m"
    and "machine_learning_interpolation L m = Inr m"
    by (simp_all add: nearest_neighbor_interpolation_def spatial_weighting_interpolation_def
        hierarchical_clustering_interpolation_def machine_learning_interpolation_def try_bind_def)
qed

text \<open>The four strategies on \<open>sparse_matrix\<close>, with the reference library.\<close>

lemma raw_features_90001_90210:
  "raw_features (Str ''90001'', Str ''90210'') = Inr [90, 0, 1, 90, 21, 0, 0, 21, 1]"
  by (simp add: raw_features_def parse_defs)

lemma scale_column_const: "scale_column [x, x, x] = [0, 0, 0]"
  by (simp add: scale_column_def mean_def)

lemma features_sparse:
  "create_zip_features sparse_matrix
   = Inr [[0, 0, 0, 0, 0, 0, 0, 0, 0], [0, 0, 0, 0, 0, 0, 0, 0, 0], [0, 0, 0, 0, 0, 0, 0, 0, 0]]"
  by (simp add: create_zip_features_def sparse_matrix_def column_def try_bind_def
      raw_features_90001_90210 fit_transform_def transpose.simps scale_column_const)



lemma kn_sparse: "ref_kneighbors (Suc (Suc 0)) [[0, 0, 0, 0, 0, 0, 0, 0, 0], [0, 0, 0, 0, 0, 0, 0, 0, 0]]
    [[0, 0, 0, 0, 0, 0, 0, 0, 0]] = Inr [([0, 0], [0, 1])]"
  by (simp add: ref_kneighbors_def euclidean_def)

lemma nn_sparse: "nearest_neighbor_interpolation ref_library sparse_matrix 5 = Inr (filled_matrix 35)"
  unfolding nearest_neighbor_interpolation_def features_sparse
  by (simp add: sparse_matrix_def filled_matrix_def column_def try_bind_def indices_where_def
      select_where_def isna_def travel_time_minutes_def ref_library_def kn_sparse
      np_average_def)


lemma zip_coordinate_90001_90210:
  "zip_coordinate ref_library (Str ''90001'', Str ''90210'') = Inr (18021 / 200, - (2399 / 20))"
  by (simp add: zip_coordinate_def zip_float_def ref_library_def parse_defs)

lemma sw_sparse: "spatial_weighting_interpolation ref_library sparse_matrix 100 = Inr (filled_matrix 35)"
  unfolding spatial_weighting_interpolation_def
  by (simp add: create_zip_coordinates_def sparse_matrix_def filled_matrix_def column_def try_bind_def
      zip_coordinate_90001_90210
      indices_where_def select_where_def isna_def travel_time_minutes_def np_average_def)


lemma hc_sparse: "hierarchical_clustering_interpolation ref_library sparse_matrix 10 = Inr (filled_matrix 30)"
  unfolding hierarchical_clustering_interpolation_def features_sparse
  by (simp add: sparse_matrix_def filled_matrix_def column_def try_bind_def indices_where_def
      select_where_def isna_def travel_time_minutes_def ref_library_def ref_fit_predict_def
      cluster_center_def cluster_value_def nearest_cluster_def nc_step_def euclidean_def mean_def
      transpose.simps)

lemma ml_sparse: "machine_learning_interpolation ref_library sparse_matrix = Inr (filled_matrix 35)"
  unfolding machine_learning_interpolation_def features_sparse
  by (simp add: sparse_matrix_def filled_matrix_def column_def try_bind_def indices_where_def
      select_where_def isna_def travel_time_minutes_def ref_library_def ref_forest_def mean_def)

text \<open>Facts for the clustering strategy.\<close>

lemma column_set_column:
  "column m c = Inr xs \<Longrightarrow> column (set_column m c ys) c = Inr ys"
  by (induction m) (auto simp: column_def split: if_splits)

lemma regular_column_length:
  assumes "regular_frame m" and "column m c = Inr xs"
  shows "length xs = nrows m"
proof -
  from assms(2) have "map_of m c = Some xs"
    by (auto simp: column_def split: option.splits)
  then have "(c, xs) \<in> set m" by (rule map_of_SomeD)
  with assms(1) show ?thesis by (auto simp: regular_frame_def list_all_iff)
qed

lemma try_map_list_all2:
  "try_map f xs = Inr ys \<Longrightarrow> list_all2 (\<lambda>x y. f x = Inr y) xs ys"
  by (induction xs arbitrary: ys) (auto split: sum.splits)

lemma raw_features_length: "raw_features row = Inr v \<Longrightarrow> length v = 9"
  by (cases row) (auto simp: raw_features_def try_bind_def split: sum.splits)

lemma select_where_length:
  "length ys = length xs \<Longrightarrow> length (select_where P xs ys) = length (filter P xs)"
proof (induction xs ys rule: list_induct2')
  case (4 x xs y ys)
  then show ?case by (simp add: select_where_def)
qed (simp_all add: select_where_def)

lemma select_where_set: "set (select_where P xs ys) \<subseteq> set ys"
  by (auto simp: select_where_def dest: set_zip_rightD)

lemma indices_where_length: "length (indices_where P xs) = length (filter P xs)"
proof -
  have "length (filter (\<lambda>(i, x). P x) (enumerate n xs)) = length (filter P xs)" for n
    by (induction xs arbitrary: n) auto
  then show ?thesis by (simp add: indices_where_def)
qed

lemma distinct_indices_where: "distinct (indices_where P xs)"
  unfolding indices_where_def
  by (rule distinct_map_filter) simp

lemma mean_bounds:
  assumes "xs \<noteq> []" and "set xs \<subseteq> A" and "finite A"
  shows "Min A \<le> mean xs \<and> mean xs \<le> Max A"
proof -
  have lo: "(\<forall>x \<in> set ys. l \<le> x) \<Longrightarrow> l * real (length ys) \<le> sum_list ys" for l and ys :: "real list"
    by (induction ys) (auto simp: algebra_simps)
  have hi: "(\<forall>x \<in> set ys. x \<le> h) \<Longrightarrow> sum_list ys \<le> h * real (length ys)" for h and ys :: "real list"
    by (induction ys) (auto simp: algebra_simps)
  have pos: "0 < real (length xs)" using assms(1) by simp
  have "\<forall>x \<in> set xs. Min A \<le> x" using assms(2,3) by auto
  from lo [OF this] pos have a: "Min A \<le> mean xs"
    by (simp add: mean_def pos_le_divide_eq)
  have "\<forall>x \<in> set xs. x \<le> Max A" using assms(2,3) by auto
  from hi [OF this] pos have b: "mean xs \<le> Max A"
    by (simp add: mean_def pos_divide_le_eq)
  from a b show ?thesis ..
qed

lemma cluster_value_mean:
  "cluster_value vs = Inr v \<Longrightarrow> vs \<noteq> [] \<Longrightarrow> v = Num (mean (map num_of vs))"
  by (auto simp: cluster_value_def split: if_splits)


lemma length_transpose_rect:
  assumes "xs \<noteq> []" and "\<forall>x \<in> set xs. length x = n"
  shows "length (transpose xs) = n" and "\<forall>c \<in> set (transpose xs). length c = length xs"
proof -
  have r: "transpose xs = map (\<lambda>i. map (\<lambda>j. xs ! j ! i) [0..<length xs]) [0..<n]"
    using assms by (intro transpose_rectangle) auto
  show "length (transpose xs) = n" by (simp add: r)
  show "\<forall>c \<in> set (transpose xs). length c = length xs" by (auto simp: r)
qed

lemma fit_transform_length:
  assumes "\<forall>r \<in> set rows. length r = 9"
  shows "length (fit_transform rows) = length rows"
proof (cases "rows = []")
  case True
  then show ?thesis by (simp add: fit_transform_def)
next
  case False
  let ?cols = "map scale_column (transpose rows)"
  have n: "length (transpose rows) = 9"
    and c: "\<forall>c \<in> set (transpose rows). length c = length rows"
    using length_transpose_rect [OF False assms] by simp_all
  have ne: "?cols \<noteq> []" using n by auto
  have "\<forall>c \<in> set ?cols. length c = length rows"
    using c by (auto simp: scale_column_def Let_def)
  from length_transpose_rect(1) [OF ne this] show ?thesis
    by (simp add: fit_transform_def)
qed

lemma create_zip_features_length:
  assumes "regular_frame m" and "create_zip_features m = Inr features"
  shows "length features = nrows m"
proof -
  from assms(2) obtain origins dests raw where
    o: "column m ''origin_zip'' = Inr origins" and d: "column m ''destination_zip'' = Inr dests"
    and raw: "try_map raw_features (zip origins dests) = Inr raw"
    and f: "features = fit_transform raw"
    by (auto simp: create_zip_features_def try_bind_def split: sum.splits)
  from try_map_list_all2 [OF raw]
  have l2: "list_all2 (\<lambda>x y. raw_features x = Inr y) (zip origins dests) raw" .
  have "\<forall>r \<in> set raw. length r = 9"
  proof
    fix r assume "r \<in> set raw"
    then obtain i where i: "i < length raw" "raw ! i = r" by (auto simp: in_set_conv_nth)
    from list_all2_nthD2 [OF l2 i(1)] i(2)
    have "raw_features (zip origins dests ! i) = Inr r" by simp
    then show "length r = 9" by (rule raw_features_length)
  qed
  then have "length features = length raw" unfolding f by (rule fit_transform_length)
  also have "\<dots> = length (zip origins dests)" using list_all2_lengthD [OF l2] by simp
  also have "\<dots> = nrows m"
    using regular_column_length [OF assms(1) o] regular_column_length [OF assms(1) d] by simp
  finally show ?thesis .
qed

lemma nc_fold:
  assumes "\<forall>p \<in> set xs. fst p < length cs \<and> cs ! fst p = snd p"
      and "fst acc \<noteq> None \<longrightarrow> snd acc < length cs \<and> cs ! snd acc \<noteq> None"
  shows "(fst (foldl (nc_step f) acc xs) \<noteq> None \<longrightarrow>
            snd (foldl (nc_step f) acc xs) < length cs
            \<and> cs ! snd (foldl (nc_step f) acc xs) \<noteq> None)
         \<and> (fst acc \<noteq> None \<or> (\<exists>p \<in> set xs. snd p \<noteq> None) \<longrightarrow>
              fst (foldl (nc_step f) acc xs) \<noteq> None)"
  using assms
proof (induction xs arbitrary: acc)
  case Nil
  then show ?case by simp
next
  case (Cons p xs)
  obtain md nr where acc: "acc = (md, nr)" by (cases acc)
  obtain j c where p: "p = (j, c)" by (cases p)
  let ?acc' = "nc_step f acc p"
  have good: "fst ?acc' \<noteq> None \<longrightarrow> snd ?acc' < length cs \<and> cs ! snd ?acc' \<noteq> None"
    using Cons.prems unfolding acc p
    by (auto simp: nc_step_def Let_def split: option.splits)
  have grow: "fst acc \<noteq> None \<or> snd p \<noteq> None \<longrightarrow> fst ?acc' \<noteq> None"
    unfolding acc p by (auto simp: nc_step_def Let_def split: option.splits)
  have rest: "\<forall>p \<in> set xs. fst p < length cs \<and> cs ! fst p = snd p"
    using Cons.prems(1) by simp
  from Cons.IH [OF rest good] grow show ?case by auto
qed

lemma nearest_cluster_nonempty:
  assumes "j < length cs" and "cs ! j \<noteq> None"
  shows "nearest_cluster f cs < length cs \<and> cs ! nearest_cluster f cs \<noteq> None"
proof -
  have nc: "nearest_cluster f cs = snd (foldl (nc_step f) (None, 0) (enumerate 0 cs))"
    by (simp add: nearest_cluster_def)
  have el: "\<forall>p \<in> set (enumerate 0 cs). fst p < length cs \<and> cs ! fst p = snd p"
    by (auto simp: in_set_enumerate_eq)
  have ex: "\<exists>p \<in> set (enumerate 0 cs). snd p \<noteq> None"
    using assms by (auto simp: in_set_enumerate_eq intro!: bexI [of _ "(j, cs ! j)"])
  from nc_fold [OF el, of "(None, 0)" f] ex show ?thesis unfolding nc by auto
qed

lemma hc_fill_written:
  assumes "hc_fill cs vs ps col = Inr col'" and "distinct (map snd ps)"
      and "(f, idx) \<in> set ps" and "idx < length col"
  shows "nearest_cluster f cs < length vs \<and> col' ! idx = vs ! nearest_cluster f cs"
  using assms
proof (induction ps arbitrary: col)
  case Nil
  then show ?case by simp
next
  case (Cons p ps)
  obtain g k where p: "p = (g, k)" by (cases p)
  from Cons.prems(1) have lt: "nearest_cluster g cs < length vs"
    and rec: "hc_fill cs vs ps (col[k := vs ! nearest_cluster g cs]) = Inr col'"
    unfolding p by (auto simp: Let_def split: if_splits)
  show ?case
  proof (cases "(f, idx) = (g, k)")
    case True
    from Cons.prems(2) have "k \<notin> snd ` set ps" unfolding p by simp
    with hc_fill_frame [OF rec] have "col' ! k = (col[k := vs ! nearest_cluster g cs]) ! k"
      by blast
    with True lt Cons.prems(4) show ?thesis by simp
  next
    case False
    with Cons.prems(3) have m: "(f, idx) \<in> set ps" unfolding p by auto
    from Cons.prems(2) have d: "distinct (map snd ps)" by simp
    from Cons.IH [OF rec d m] Cons.prems(4) show ?thesis by simp
  qed
qed


lemma select_where_nonempty:
  assumes "length ys = length xs"
  shows "(select_where P xs ys \<noteq> []) = (filter P xs \<noteq> [])"
  using select_where_length [OF assms, of P] by (metis length_0_conv)

lemma zip_select_enumerate:
  "length ys = length xs \<Longrightarrow>
   (f, idx) \<in> set (zip (map snd (filter (\<lambda>(x, y). P x) (zip xs ys)))
                        (map fst (filter (\<lambda>(i, x). P x) (enumerate n xs)))) \<Longrightarrow>
   n \<le> idx \<and> f = ys ! (idx - n)"
proof (induction xs ys arbitrary: n rule: list_induct2')
  case (4 x xs y ys)
  show ?case
  proof (cases "P x")
    case True
    with "4.prems" have "(f, idx) = (y, n) \<or>
      (f, idx) \<in> set (zip (map snd (filter (\<lambda>(x, y). P x) (zip xs ys)))
                          (map fst (filter (\<lambda>(i, x). P x) (enumerate (Suc n) xs))))"
      by auto
    then show ?thesis
    proof
      assume "(f, idx) = (y, n)"
      then show ?thesis by simp
    next
      assume "(f, idx) \<in> set (zip (map snd (filter (\<lambda>(x, y). P x) (zip xs ys)))
                          (map fst (filter (\<lambda>(i, x). P x) (enumerate (Suc n) xs))))"
      with "4.IH" [of "Suc n"] "4.prems"(1) have "Suc n \<le> idx \<and> f = ys ! (idx - Suc n)"
        by simp
      moreover from this have "idx - n = Suc (idx - Suc n)" by arith
      ultimately show ?thesis by simp
    qed
  next
    case False
    with "4.prems" have
      "(f, idx) \<in> set (zip (map snd (filter (\<lambda>(x, y). P x) (zip xs ys)))
                          (map fst (filter (\<lambda>(i, x). P x) (enumerate (Suc n) xs))))"
      by auto
    with "4.IH" [of "Suc n"] "4.prems"(1) have "Suc n \<le> idx \<and> f = ys ! (idx - Suc n)"
      by simp
    moreover from this have "idx - n = Suc (idx - Suc n)" by arith
    ultimately show ?thesis by simp
  qed
qed simp_all

lemma zip_select_indices:
  assumes "length ys = length xs"
      and "(f, idx) \<in> set (zip (select_where P xs ys) (indices_where P xs))"
  shows "f = ys ! idx"
  using zip_select_enumerate [OF assms(1), of f idx P 0] assms(2)
  by (simp add: select_where_def indices_where_def)

text \<open>The clustering strategy on \<open>shifted_matrix\<close>.\<close>

lemma hc_shifted_one:
  "hierarchical_clustering_interpolation ref_library shifted_matrix 1 = Inr (shifted_filled 50)"
  unfolding hierarchical_clustering_interpolation_def features_shifted
  by (simp add: shifted_matrix_def shifted_filled_def column_def try_bind_def indices_where_def
      select_where_def isna_def travel_time_minutes_def ref_library_def ref_fit_predict_def
      cluster_center_def cluster_value_def nearest_cluster_def nc_step_def euclidean_def
      mean_def transpose.simps)

lemma hc_shifted_two:
  "hierarchical_clustering_interpolation apart_library shifted_matrix 2 = Inr (shifted_filled 90)"
  unfolding hierarchical_clustering_interpolation_def features_shifted
  by (simp add: shifted_matrix_def shifted_filled_def column_def try_bind_def indices_where_def
      select_where_def isna_def travel_time_minutes_def apart_library_def ref_library_def
      last_apart_def
      cluster_center_def cluster_value_def nearest_cluster_def nc_step_def euclidean_def
      mean_def transpose.simps)

text \<open>The build: a failure before the save step leaves the files; phases 1 to 4 on
  \<open>gap_files\<close>.\<close>

lemma build_fails_before_save:
  "(fill_phases b L noise fs = Inl e \<longrightarrow> build_travel_matrix b L noise fs = (Inl e, fs))
   \<and> (fill_phases b L noise fs = Inr m \<and> validate_matrix b m = Inl e \<longrightarrow>
        build_travel_matrix b L noise fs = (Inl e, fs))"
  by (simp add: build_travel_matrix_def)

lemma computed_fill_gap_files:
  "computed_fill b L noise gap_files
   = Inr [(''zip_code'', [Str ''90210'', Str ''90210'']),
          (''provider_npi'', [Num 1234567890, NaN]),
          (''drive_minutes'',
             [Num (estimate_travel_time (coordinates b) ''90001'' ''90210'' (noise 0)), NaN])]"
  by (simp add: computed_fill_def load_provider_data_def load_demand_data_def gap_files_def
      has_column_def rename_column_def map_column_def zfill_def create_target_matrix_def
      column_def try_bind_def provider_info_def target_pairs_def fill_with_academic_data_def
      fill_with_osrm_data_def drive_minutes_def indices_where_def isna_def
      provider_zip_lookup_def select_where_def)

subsection \<open>DistanceEstimator\<close>

text \<open>
  C2. The claim: \<^verbatim>\<open>distanceMiles(a, b)\<close> is the haversine great-circle distance (Earth radius
  3958.8 to 3959 miles) times the road inflation factor 1.15. The builder's
  \<^verbatim>\<open>_calculate_distance\<close> uses the radius 3959 and applies no inflation factor, while
  the sibling \<^verbatim>\<open>haversine\<close> of generate_statewide_travel_matrix.py does multiply by
  1.15. From the point (0, 0) to the point (0, 180) the central angle is \<open>pi\<close>: the
  builder returns \<open>3959 * pi\<close>, which is below \<open>1.15 * R * pi\<close> for every radius
  \<open>R\<close> of the claimed range, and the sibling returns \<open>3958.8 * pi * 1.15\<close>.
\<close>

theorem calculate_distance_not_inflated:
  "calculate_distance (0, 0) (0, 180) = 3959 * pi
   \<and> calculate_distance (0, 0) (0, 180) < 1.15 * (3958.8 * pi)
   \<and> haversine 0 0 0 180 = Inr (3958.8 * pi * 1.15)"
proof -
  have d: "calculate_distance (0, 0) (0, 180) = 3959 * pi"
    by (simp add: calculate_distance_def radians_def)
  have h: "haversine 0 0 0 180 = Inr (3958.8 * pi * 1.15)"
    by (simp add: haversine_def radians_def math_sqrt_def atan2_def)
  have "(3959 :: real) * pi < 1.15 * (3958.8 * pi)"
    using pi_gt_zero by simp
  with d h show ?thesis by simp
qed

text \<open>
  C9. \<^verbatim>\<open>distanceMiles(a, b) == distanceMiles(b, a)\<close> for all points, and
  \<^verbatim>\<open>distanceMiles(a, a) == 0\<close> (over the reals).
\<close>

theorem calculate_distance_symmetric_zero:
  "calculate_distance a b = calculate_distance b a \<and> calculate_distance a a = 0"
proof -
  obtain lat1 lon1 where a: "a = (lat1, lon1)" by (cases a)
  obtain lat2 lon2 where b: "b = (lat2, lon2)" by (cases b)
  have "calculate_distance a b = calculate_distance b a"
    unfolding a b calculate_distance_def Let_def prod.case
    by (simp add: sin_half_diff_sq [of "radians lat1" "radians lat2"]
        sin_half_diff_sq [of "radians lon1" "radians lon2"] mult.commute)
  moreover have "calculate_distance a a = 0"
    unfolding a calculate_distance_def Let_def prod.case by simp
  ultimately show ?thesis by simp
qed

subsection \<open>SpeedTierModel\<close>

text \<open>
  C5. For every distance and every value of the random perturbation, the band formula
  plus the perturbation, after clamping, lies in the closed interval [5, 600]. The
  statement needs no assumption on the distance.
\<close>

theorem estimate_minutes_bounds:
  "5 \<le> estimate_minutes d noise \<and> estimate_minutes d noise \<le> 600"
  by (simp add: estimate_minutes_def Let_def)



subsection \<open>MatrixBuilder\<close>

text \<open>
  When every provider identifier of the roster occurs in one row, the materialized
  matrix has one row per (demand ZIP, provider) pair and
  \<open>|providers| * |demand ZIPs|\<close> rows.
\<close>

lemma create_target_matrix_one_row_per_provider:
  assumes npis: "column pd ''NPI'' = Inr npis"
      and zips: "column pd ''zip_code'' = Inr zips"
      and len: "length zips = length npis"
      and dist: "distinct npis"
      and dz: "column dd ''zip_code'' = Inr dzips"
  shows "\<exists>m. create_target_matrix L (Some pd) (Some dd) = Inr m
             \<and> distinct (matrix_pairs m)
             \<and> nrows m = length npis * length (drop_duplicates dzips)"
proof -
  define zip5 where "zip5 = map (\<lambda>c. take 5 (cell_str (str_of_num L) c)) zips"
  have l5: "length zip5 = length npis" using len by (simp add: zip5_def)
  have fst: "map fst (zip npis zip5) = npis" using l5 by simp
  have "distinct (zip npis zip5)" using dist by (rule distinct_zipI1)
  then have info: "provider_info L npis zips = zip npis zip5"
    by (simp add: provider_info_def zip5_def drop_duplicates_id)
  define pairs where "pairs = target_pairs (zip npis zip5) (drop_duplicates dzips)"
  have d: "distinct pairs"
    unfolding pairs_def using fst dist distinct_drop_duplicates
    by (intro distinct_target_pairs) simp_all
  have n: "length pairs = length npis * length (drop_duplicates dzips)"
    unfolding pairs_def using l5 by (simp add: length_target_pairs)
  let ?m = "[(''zip_code'', map fst pairs), (''provider_npi'', map snd pairs),
             (''drive_minutes'', replicate (length pairs) NaN)]"
  have "create_target_matrix L (Some pd) (Some dd) = Inr ?m"
    using npis zips dz info
    by (simp add: create_target_matrix_def try_bind_def pairs_def Let_def)
  moreover have "matrix_pairs ?m = pairs"
    by (simp add: matrix_pairs_def column_def zip_map_fst_snd)
  moreover have "nrows ?m = length pairs" by (simp add: nrows_def)
  ultimately show ?thesis using d n by simp
qed

text \<open>
  C1. The claim: the materialized matrix has \<open>|providers| * |demand areas|\<close> rows and no
  duplicate (demand_zip, provider_id) pair, also for a roster that lists one provider
  identifier with more than one ZIP code. \<^verbatim>\<open>_create_target_matrix\<close> removes duplicates
  of the pair (NPI, ZIP) and then keeps the NPI only: for the roster with the provider
  1234567890 at the ZIPs 90001 and 94102 and the single demand ZIP 90210, the matrix has
  the row (90210, 1234567890) twice, where one provider and one demand area give one pair.
\<close>

theorem create_target_matrix_duplicate_pairs:
  "create_target_matrix L (Some two_site_roster) (Some one_demand_area)
     = Inr [(''zip_code'', [Str ''90210'', Str ''90210'']),
            (''provider_npi'', [Num 1234567890, Num 1234567890]),
            (''drive_minutes'', [NaN, NaN])]
   \<and> matrix_pairs [(''zip_code'', [Str ''90210'', Str ''90210'']),
                    (''provider_npi'', [Num 1234567890, Num 1234567890]),
                    (''drive_minutes'', [NaN, NaN])]
       = [(Str ''90210'', Num 1234567890), (Str ''90210'', Num 1234567890)]
   \<and> nunique [Num 1234567890, Num 1234567890] * nunique [Str ''90210''] = 1"
  by (simp add: create_target_matrix_def two_site_roster_def one_demand_area_def column_def
      try_bind_def provider_info_def target_pairs_def matrix_pairs_def nunique_def isna_def)

text \<open>
  C4. The claim: phase 5 hands the entries that are still unset to the engine and
  returns a matrix in which they are filled. The builder's matrix has the columns
  zip_code, provider_npi and drive_minutes; the first thing the engine's nearest-neighbour
  strategy does is read the column travel_time_minutes, which is not there. For every
  library, phase 5 on a builder matrix with an unset entry raises this KeyError.
\<close>

theorem interpolate_remaining_gaps_key_error:
  "interpolate_remaining_gaps L unfilled_builder_matrix = Inl (KeyError ''travel_time_minutes'')"
  by (simp add: interpolate_remaining_gaps_def nearest_neighbor_interpolation_def
      unfilled_builder_matrix_def column_def try_bind_def indices_where_def isna_def
      drive_minutes_def travel_time_minutes_def)

text \<open>
  C3. The claim: a build whose matrix coverage after the fill phases is below the
  configured minimum (default 0.95) raises the coverage error and writes no output
  file. \<^verbatim>\<open>_validate_matrix\<close> does raise it before \<^verbatim>\<open>_save_matrix\<close>, but a build with an
  unset entry never reaches it: phase 5 raises the KeyError of C4 first. For the default
  builder, every library and every noise, the roster of \<open>gap_files\<close> (the second
  provider has no identifier, so the computed fill skips its row) leaves a coverage of
  1/2 after phase 4, and the build ends with KeyError, not with the coverage error; no
  file is written.
\<close>

theorem build_low_coverage_key_error:
  "computed_fill (default_builder db) L noise gap_files
     = Inr [(''zip_code'', [Str ''90210'', Str ''90210'']),
            (''provider_npi'', [Num 1234567890, NaN]),
            (''drive_minutes'',
               [Num (estimate_travel_time db ''90001'' ''90210'' (noise 0)), NaN])]
   \<and> matrix_coverage [Num (estimate_travel_time db ''90001'' ''90210'' (noise 0)), NaN]
       = Some (1 / 2)
   \<and> 1 / 2 < min_coverage (default_builder db)
   \<and> build_travel_matrix (default_builder db) L noise gap_files
       = (Inl (KeyError ''travel_time_minutes''), gap_files)"
proof -
  have a: "computed_fill (default_builder db) L noise gap_files
     = Inr [(''zip_code'', [Str ''90210'', Str ''90210'']),
            (''provider_npi'', [Num 1234567890, NaN]),
            (''drive_minutes'',
               [Num (estimate_travel_time db ''90001'' ''90210'' (noise 0)), NaN])]"
    using computed_fill_gap_files [of "default_builder db" L noise]
    by (simp add: default_builder_def)
  have b: "matrix_coverage [Num (estimate_travel_time db ''90001'' ''90210'' (noise 0)), NaN]
       = Some (1 / 2)"
    by (simp add: matrix_coverage_def isna_def)
  have c: "1 / 2 < min_coverage (default_builder db)"
    by (simp add: default_builder_def)
  have "fill_phases (default_builder db) L noise gap_files
        = Inl (KeyError ''travel_time_minutes'')"
    unfolding fill_phases_def a
    by (simp add: try_bind_def interpolate_remaining_gaps_def
        nearest_neighbor_interpolation_def column_def indices_where_def isna_def
        drive_minutes_def travel_time_minutes_def)
  then have d: "build_travel_matrix (default_builder db) L noise gap_files
       = (Inl (KeyError ''travel_time_minutes''), gap_files)"
    by (simp add: build_travel_matrix_def)
  from a b c d show ?thesis by simp
qed

subsection \<open>InterpolationEngine\<close>

text \<open>
  C7. The claim: the nearest-neighbour strategy fills each unknown entry with the
  inverse-distance-weighted average of the travel times of its nearest known entries,
  the averaged values being those of the known rows the index selected. The index
  answers with positions among the known rows, and the code reads the frame rows that
  carry these numbers as labels.
  \<^item> \<open>gap_first_matrix\<close>, default \<open>k = 5\<close>: the only known row is row 1, position 0
    among the known rows; the code averages row 0, the unknown entry itself, and the
    entry stays NaN.
  \<^item> \<open>shifted_matrix\<close>, \<open>k = 1\<close>: the nearest known row of row 0 is row 3 (same ZIP pair,
    distance 0, travel time 90), position 2 among the known rows; the code writes the
    travel time of row 2, which is 50.
\<close>

theorem nearest_neighbor_reads_wrong_rows:
  "nearest_neighbor_interpolation ref_library gap_first_matrix 5 = Inr gap_first_matrix
   \<and> nearest_neighbor_interpolation ref_library shifted_matrix 1
       = Inr [(''origin_zip'', [Str ''90001'', Str ''94102'', Str ''94102'', Str ''90001'']),
              (''destination_zip'', [Str ''90001'', Str ''94102'', Str ''94102'', Str ''90001'']),
              (''travel_time_minutes'', [Num 50, Num 10, Num 50, Num 90])]"
proof -
  have a: "nearest_neighbor_interpolation ref_library gap_first_matrix 5 = Inr gap_first_matrix"
    by (simp add: nearest_neighbor_interpolation_def gap_first_matrix_def column_def
        indices_where_def select_where_def isna_def travel_time_minutes_def
        create_zip_features_def fit_transform_def scale_column_def mean_def raw_features_def
        parse_defs ref_library_def ref_kneighbors_def euclidean_def np_average_def)
  have b: "nearest_neighbor_interpolation ref_library shifted_matrix 1
       = Inr [(''origin_zip'', [Str ''90001'', Str ''94102'', Str ''94102'', Str ''90001'']),
              (''destination_zip'', [Str ''90001'', Str ''94102'', Str ''94102'', Str ''90001'']),
              (''travel_time_minutes'', [Num 50, Num 10, Num 50, Num 90])]"
    unfolding nearest_neighbor_interpolation_def features_shifted
    by (simp add: shifted_matrix_def column_def try_bind_def indices_where_def select_where_def
        isna_def travel_time_minutes_def ref_library_def kneighbors_shifted np_average_def)
  from a b show ?thesis by simp
qed

text \<open>
  C6. Every interpolation strategy (nearest-neighbour, spatial weighting, hierarchical
  clustering, regression) that returns a matrix returns one with the same columns, in
  which every entry of the travel-time column that was not NaN is unchanged and every
  other column is unchanged; and on a matrix whose travel-time column has no NaN each
  strategy returns the matrix itself. This holds for every library.
\<close>

theorem interpolation_keeps_known_entries:
  "(nearest_neighbor_interpolation L m k = Inr m1 \<longrightarrow> frame_same_known m m1)
   \<and> (spatial_weighting_interpolation L m r = Inr m2 \<longrightarrow> frame_same_known m m2)
   \<and> (hierarchical_clustering_interpolation L m n = Inr m3 \<longrightarrow> frame_same_known m m3)
   \<and> (machine_learning_interpolation L m = Inr m4 \<longrightarrow> frame_same_known m m4)
   \<and> (column m travel_time_minutes = Inr ts \<and> list_all (\<lambda>c. \<not> isna c) ts \<longrightarrow>
        nearest_neighbor_interpolation L m k = Inr m
        \<and> spatial_weighting_interpolation L m r = Inr m
        \<and> hierarchical_clustering_interpolation L m n = Inr m
        \<and> machine_learning_interpolation L m = Inr m)"
  using nearest_neighbor_frame [of L m k m1] spatial_weighting_frame [of L m r m2]
    hierarchical_clustering_frame [of L m n m3] machine_learning_frame [of L m m4]
    fully_known_noop [of m ts L]
  by blast

theorem interpolation_keeps_known_entries_witness:
  "nearest_neighbor_interpolation ref_library sparse_matrix 5 = Inr (filled_matrix 35)
   \<and> frame_same_known sparse_matrix (filled_matrix 35)
   \<and> spatial_weighting_interpolation ref_library sparse_matrix 100 = Inr (filled_matrix 35)
   \<and> hierarchical_clustering_interpolation ref_library sparse_matrix 10 = Inr (filled_matrix 30)
   \<and> frame_same_known sparse_matrix (filled_matrix 30)
   \<and> machine_learning_interpolation ref_library sparse_matrix = Inr (filled_matrix 35)
   \<and> column (filled_matrix 35) travel_time_minutes = Inr [Num 30, Num 40, Num 35]
   \<and> list_all (\<lambda>c. \<not> isna c) [Num 30, Num 40, Num 35]
   \<and> nearest_neighbor_interpolation ref_library (filled_matrix 35) 5 = Inr (filled_matrix 35)
   \<and> spatial_weighting_interpolation ref_library (filled_matrix 35) 100 = Inr (filled_matrix 35)
   \<and> hierarchical_clustering_interpolation ref_library (filled_matrix 35) 10
       = Inr (filled_matrix 35)
   \<and> machine_learning_interpolation ref_library (filled_matrix 35) = Inr (filled_matrix 35)"
proof -
  have c: "column (filled_matrix 35) travel_time_minutes = Inr [Num 30, Num 40, Num 35]"
    by (simp add: filled_matrix_def column_def travel_time_minutes_def)
  have k: "list_all (\<lambda>c. \<not> isna c) [Num 30, Num 40, Num 35]"
    by (simp add: isna_def)
  show ?thesis
    using c k nn_sparse sw_sparse hc_sparse ml_sparse
      interpolation_keeps_known_entries [where L = ref_library and m = sparse_matrix
        and k = 5 and ?m1.0 = "filled_matrix 35" and n = 10 and ?m3.0 = "filled_matrix 30"]
      interpolation_keeps_known_entries [where L = ref_library and m = "filled_matrix 35"
        and k = 5 and r = 100 and n = 10 and ts = "[Num 30, Num 40, Num 35]"]
    by simp
qed

text \<open>
  C10. Whenever the hierarchical-clustering strategy returns, the value it wrote at an
  entry \<open>i\<close> that was NaN is the mean travel time of a cluster of known entries, namely
  of the cluster the code selects: with \<open>features\<close> the ZIP features of the frame,
  \<open>kf\<close> those of the known rows, \<open>k = min n_clusters |kf|\<close> and \<open>ls\<close> the labels
  that \<open>fit_predict\<close> returned for \<open>kf\<close>, the cluster is the one whose centroid is
  nearest to the features of row \<open>i\<close> (the first such, cluster 0 when no distance is
  finite); it is not empty, the value written is the mean of its travel times, and this
  mean lies between the least and the greatest known travel time. Every bound variable
  of the statement is fixed by an equation. The assumptions: the frame is regular, and
  the clustering returns labels below the number of clusters. A matrix with no known
  entry makes the strategy raise, so a returned matrix had one.

  The witness runs the strategy on \<open>shifted_matrix\<close>: with one cluster (the labels
  are then all 0 for any clustering) the entry becomes 50, the mean of 10, 50 and 90;
  with two clusters, the two equal rows and the third, it becomes 90, the value of the
  cluster at distance 0.
\<close>

theorem clustering_writes_cluster_means:
  assumes ret: "hierarchical_clustering_interpolation L m n = Inr m'"
      and lab: "labels_in_range L"
      and reg: "regular_frame m"
      and col: "column m travel_time_minutes = Inr ts"
      and col': "column m' travel_time_minutes = Inr ts'"
      and i: "i < length ts" "isna (ts ! i)"
  shows "\<exists>features kf k ls cid vs.
           create_zip_features m = Inr features
           \<and> kf = select_where (\<lambda>c. \<not> isna c) ts features
           \<and> k = min n (length kf)
           \<and> fit_predict L k kf = Inr ls
           \<and> length ls = length (filter (\<lambda>c. \<not> isna c) ts)
           \<and> cid = nearest_cluster (features ! i)
                      (map (\<lambda>c. cluster_center (select_where (\<lambda>l. l = c) ls kf)) [0..<k])
           \<and> cid < k
           \<and> vs = select_where (\<lambda>l. l = cid) ls (filter (\<lambda>c. \<not> isna c) ts)
           \<and> vs \<noteq> []
           \<and> ts' ! i = Num (mean (map num_of vs))
           \<and> Min (set (numbers ts)) \<le> mean (map num_of vs)
           \<and> mean (map num_of vs) \<le> Max (set (numbers ts))"
proof -
  define missing where "missing = indices_where isna ts"
  define known where "known = filter (\<lambda>c. \<not> isna c) ts"
  have im: "i \<in> set missing" using i by (simp add: missing_def set_indices_where)
  then have ne: "missing \<noteq> []" by auto
  from ret col ne obtain features ls cvs ts'' where
    feat: "create_zip_features m = Inr features"
    and fp: "fit_predict L (min n (length (select_where (\<lambda>c. \<not> isna c) ts features)))
               (select_where (\<lambda>c. \<not> isna c) ts features) = Inr ls"
    and len: "length ls = length (select_where (\<lambda>c. \<not> isna c) ts features)"
    and cv: "try_map (\<lambda>cluster_id. cluster_value (select_where (\<lambda>l. l = cluster_id) ls known))
               [0..<min n (length (select_where (\<lambda>c. \<not> isna c) ts features))] = Inr cvs"
    and fill: "hc_fill
                 (map (\<lambda>cluster_id. cluster_center (select_where (\<lambda>l. l = cluster_id) ls
                         (select_where (\<lambda>c. \<not> isna c) ts features)))
                    [0..<min n (length (select_where (\<lambda>c. \<not> isna c) ts features))])
                 cvs (zip (select_where isna ts features) missing) ts = Inr ts''"
    and m': "m' = set_column m travel_time_minutes ts''"
    unfolding hierarchical_clustering_interpolation_def missing_def known_def
    by (auto simp: try_bind_def Let_def split: sum.splits if_splits)
  define kf where "kf = select_where (\<lambda>c. \<not> isna c) ts features"
  define k where "k = min n (length kf)"
  define centers where
    "centers = map (\<lambda>cluster_id. cluster_center (select_where (\<lambda>l. l = cluster_id) ls kf)) [0..<k]"
  note fp = fp [folded kf_def, folded k_def]
  note len = len [folded kf_def]
  note cv = cv [folded kf_def, folded k_def]
  note fill = fill [folded kf_def, folded k_def, folded centers_def]
  have ts'': "ts' = ts''"
    using column_set_column [OF col, of ts''] col' unfolding m' by simp
  have lf: "length features = length ts"
    using create_zip_features_length [OF reg feat] regular_column_length [OF reg col] by simp
  have lkf: "length kf = length known"
    unfolding kf_def known_def using lf by (simp add: select_where_length)
  have lmf: "length (select_where isna ts features) = length missing"
    unfolding missing_def using lf by (simp add: select_where_length indices_where_length)
  from im lmf obtain f where fi: "(f, i) \<in> set (zip (select_where isna ts features) missing)"
    by (metis in_set_impl_in_set_zip2)
  have dist: "distinct (map snd (zip (select_where isna ts features) missing))"
    using lmf by (simp add: missing_def distinct_indices_where)
  have f: "f = features ! i"
    using zip_select_indices [OF lf fi [unfolded missing_def]] .
  define nc where "nc = nearest_cluster f centers"
  from hc_fill_written [OF fill dist fi i(1)]
  have nc_lt: "nc < length cvs" and written: "ts'' ! i = cvs ! nc"
    by (simp_all add: nc_def)
  from try_map_list_all2 [OF cv]
  have cvs: "list_all2 (\<lambda>cid v. cluster_value (select_where (\<lambda>l. l = cid) ls known) = Inr v)
               [0..<k] cvs" .
  then have lcvs: "length cvs = k" by (auto dest: list_all2_lengthD)
  with nc_lt have nck: "nc < k" by simp
  then have "0 < length kf" by (auto simp: k_def)
  with len have ls0: "0 < length ls" by simp
  from lab fp have "list_all (\<lambda>l. l < k) ls" by (auto simp: labels_in_range_def)
  with ls0 have c0: "ls ! 0 < k" by (auto simp: list_all_length)
  have "filter (\<lambda>l. l = ls ! 0) ls \<noteq> []"
    using ls0 by (auto simp: filter_empty_conv intro!: bexI [of _ "ls ! 0"])
  then have "select_where (\<lambda>l. l = ls ! 0) ls kf \<noteq> []"
    using len by (simp add: select_where_nonempty)
  then have "centers ! (ls ! 0) \<noteq> None"
    using c0 by (simp add: centers_def cluster_center_def)
  moreover have "ls ! 0 < length centers" using c0 by (simp add: centers_def)
  ultimately have "centers ! nc \<noteq> None"
    using nearest_cluster_nonempty [of "ls ! 0" centers f] by (simp add: nc_def)
  then have "select_where (\<lambda>l. l = nc) ls kf \<noteq> []"
    using nck by (simp add: centers_def cluster_center_def split: if_splits)
  then have "filter (\<lambda>l. l = nc) ls \<noteq> []"
    using len by (simp add: select_where_nonempty)
  define vs where "vs = select_where (\<lambda>l. l = nc) ls known"
  have vne: "vs \<noteq> []"
    unfolding vs_def using \<open>filter (\<lambda>l. l = nc) ls \<noteq> []\<close> len lkf
    by (simp add: select_where_nonempty)
  from list_all2_nthD2 [OF cvs nc_lt] nck
  have "cluster_value vs = Inr (cvs ! nc)" by (simp add: vs_def)
  from cluster_value_mean [OF this vne] written ts''
  have val: "ts' ! i = Num (mean (map num_of vs))" by simp
  have "set vs \<subseteq> set known" unfolding vs_def by (rule select_where_set)
  then have sub: "set (map num_of vs) \<subseteq> set (numbers ts)"
    by (auto simp: numbers_def known_def)
  from mean_bounds [OF _ sub] vne
  have b: "Min (set (numbers ts)) \<le> mean (map num_of vs)
           \<and> mean (map num_of vs) \<le> Max (set (numbers ts))" by simp
  have ll: "length ls = length known" using len lkf by simp
  have final: "create_zip_features m = Inr features
        \<and> kf = select_where (\<lambda>c. \<not> isna c) ts features
        \<and> k = min n (length kf)
        \<and> fit_predict L k kf = Inr ls
        \<and> length ls = length (filter (\<lambda>c. \<not> isna c) ts)
        \<and> nc = nearest_cluster (features ! i)
                   (map (\<lambda>c. cluster_center (select_where (\<lambda>l. l = c) ls kf)) [0..<k])
        \<and> nc < k
        \<and> vs = select_where (\<lambda>l. l = nc) ls (filter (\<lambda>c. \<not> isna c) ts)
        \<and> vs \<noteq> []
        \<and> ts' ! i = Num (mean (map num_of vs))
        \<and> Min (set (numbers ts)) \<le> mean (map num_of vs)
        \<and> mean (map num_of vs) \<le> Max (set (numbers ts))"
    using feat fp ll nck vne val b
    by (simp add: kf_def k_def nc_def f centers_def vs_def known_def)
  show ?thesis
    by (rule exI [where x = features], rule exI [where x = kf], rule exI [where x = k],
        rule exI [where x = ls], rule exI [where x = nc], rule exI [where x = vs])
      (rule final)
qed

theorem clustering_writes_cluster_means_witness:
  "hierarchical_clustering_interpolation ref_library shifted_matrix 1 = Inr (shifted_filled 50)
   \<and> hierarchical_clustering_interpolation apart_library shifted_matrix 2
       = Inr (shifted_filled 90)
   \<and> labels_in_range ref_library
   \<and> labels_in_range apart_library
   \<and> regular_frame shifted_matrix
   \<and> column shifted_matrix travel_time_minutes = Inr [NaN, Num 10, Num 50, Num 90]
   \<and> column (shifted_filled 50) travel_time_minutes = Inr [Num 50, Num 10, Num 50, Num 90]
   \<and> column (shifted_filled 90) travel_time_minutes = Inr [Num 90, Num 10, Num 50, Num 90]
   \<and> isna ([NaN, Num 10, Num 50, Num 90] ! 0)
   \<and> (\<exists>features kf k ls cid vs.
          create_zip_features shifted_matrix = Inr features
          \<and> kf = select_where (\<lambda>c. \<not> isna c) [NaN, Num 10, Num 50, Num 90] features
          \<and> k = min 1 (length kf)
          \<and> fit_predict ref_library k kf = Inr ls
          \<and> length ls = length (filter (\<lambda>c. \<not> isna c) [NaN, Num 10, Num 50, Num 90])
          \<and> cid = nearest_cluster (features ! 0)
                     (map (\<lambda>c. cluster_center (select_where (\<lambda>l. l = c) ls kf)) [0..<k])
          \<and> cid < k
          \<and> vs = select_where (\<lambda>l. l = cid) ls
                    (filter (\<lambda>c. \<not> isna c) [NaN, Num 10, Num 50, Num 90])
          \<and> vs \<noteq> []
          \<and> [Num 50, Num 10, Num 50, Num 90] ! 0 = Num (mean (map num_of vs))
          \<and> Min (set (numbers [NaN, Num 10, Num 50, Num 90])) \<le> mean (map num_of vs)
          \<and> mean (map num_of vs) \<le> Max (set (numbers [NaN, Num 10, Num 50, Num 90])))
   \<and> (\<exists>features kf k ls cid vs.
          create_zip_features shifted_matrix = Inr features
          \<and> kf = select_where (\<lambda>c. \<not> isna c) [NaN, Num 10, Num 50, Num 90] features
          \<and> k = min 2 (length kf)
          \<and> fit_predict apart_library k kf = Inr ls
          \<and> length ls = length (filter (\<lambda>c. \<not> isna c) [NaN, Num 10, Num 50, Num 90])
          \<and> cid = nearest_cluster (features ! 0)
                     (map (\<lambda>c. cluster_center (select_where (\<lambda>l. l = c) ls kf)) [0..<k])
          \<and> cid < k
          \<and> vs = select_where (\<lambda>l. l = cid) ls
                    (filter (\<lambda>c. \<not> isna c) [NaN, Num 10, Num 50, Num 90])
          \<and> vs \<noteq> []
          \<and> [Num 90, Num 10, Num 50, Num 90] ! 0 = Num (mean (map num_of vs))
          \<and> Min (set (numbers [NaN, Num 10, Num 50, Num 90])) \<le> mean (map num_of vs)
          \<and> mean (map num_of vs) \<le> Max (set (numbers [NaN, Num 10, Num 50, Num 90])))"
proof -
  have lab1: "labels_in_range ref_library"
    by (auto simp: labels_in_range_def ref_library_def ref_fit_predict_def list_all_iff
        split: if_splits)
  have lab2: "labels_in_range apart_library"
    by (auto simp: labels_in_range_def apart_library_def ref_library_def last_apart_def
        list_all_iff split: if_splits)
  have reg: "regular_frame shifted_matrix"
    by (simp add: regular_frame_def shifted_matrix_def nrows_def)
  have c: "column shifted_matrix travel_time_minutes = Inr [NaN, Num 10, Num 50, Num 90]"
    by (simp add: shifted_matrix_def column_def travel_time_minutes_def)
  have c1: "column (shifted_filled 50) travel_time_minutes
            = Inr [Num 50, Num 10, Num 50, Num 90]"
    by (simp add: shifted_filled_def column_def travel_time_minutes_def)
  have c2: "column (shifted_filled 90) travel_time_minutes
            = Inr [Num 90, Num 10, Num 50, Num 90]"
    by (simp add: shifted_filled_def column_def travel_time_minutes_def)
  have i: "0 < length [NaN, Num 10, Num 50, Num 90]" "isna ([NaN, Num 10, Num 50, Num 90] ! 0)"
    by (simp_all add: isna_def)
  note one = clustering_writes_cluster_means [OF hc_shifted_one lab1 reg c c1 i]
  note two = clustering_writes_cluster_means [OF hc_shifted_two lab2 reg c c2 i]
  from one two hc_shifted_one hc_shifted_two lab1 lab2 reg c c1 c2 i(2)
  show ?thesis by (intro conjI)
qed

end
